theory Spec2Isabelle
  imports Main "HOL-Library.Multiset"
begin

section \<open>Python strings\<close>

text \<open>
  A Python \<open>str\<close> is modelled as a \<open>string\<close> (a list of \<open>char\<close>), each \<open>char\<close>
  standing for the code point of the same number, so the model covers the
  texts whose code points are below 256. The character classes below are
  Python's, restricted to that range.
\<close>

definition py_isspace :: "char \<Rightarrow> bool" where
  \<comment> \<open>\<open>str.isspace\<close> on one character: the characters that \<open>str.strip()\<close> removes.\<close>
  "py_isspace c = ((of_char c :: nat) \<in> {9, 10, 11, 12, 13, 28, 29, 30, 31, 32, 133, 160})"

definition py_isdigit :: "char \<Rightarrow> bool" where
  \<comment> \<open>\<open>str.isdigit\<close> on one character: the decimal digits and the
      superscripts two, three and one (U+00B2, U+00B3, U+00B9).\<close>
  "py_isdigit c = ((48 \<le> (of_char c :: nat) \<and> (of_char c :: nat) \<le> 57)
                    \<or> (of_char c :: nat) \<in> {178, 179, 185})"

definition ascii_digit :: "char \<Rightarrow> bool" where
  "ascii_digit c = (48 \<le> (of_char c :: nat) \<and> (of_char c :: nat) \<le> 57)"

definition ascii_alpha :: "char \<Rightarrow> bool" where
  "ascii_alpha c = ((65 \<le> (of_char c :: nat) \<and> (of_char c :: nat) \<le> 90)
                     \<or> (97 \<le> (of_char c :: nat) \<and> (of_char c :: nat) \<le> 122))"

definition py_strip :: "string \<Rightarrow> string" where
  \<comment> \<open>\<open>s.strip()\<close>\<close>
  "py_strip s = rev (dropWhile py_isspace (rev (dropWhile py_isspace s)))"

fun py_split :: "char \<Rightarrow> string \<Rightarrow> string list" where
  \<comment> \<open>\<open>s.split(sep)\<close> for a one-character separator: always at least one piece.\<close>
  "py_split sep [] = [[]]"
| "py_split sep (c # cs) =
     (if c = sep then [] # py_split sep cs
      else (case py_split sep cs of [] \<Rightarrow> [[c]] | w # ws \<Rightarrow> (c # w) # ws))"

fun py_join :: "string \<Rightarrow> string list \<Rightarrow> string" where
  \<comment> \<open>\<open>sep.join(xs)\<close>\<close>
  "py_join sep [] = []"
| "py_join sep [x] = x"
| "py_join sep (x # y # ys) = x @ sep @ py_join sep (y # ys)"

definition digit_char :: "nat \<Rightarrow> char" where
  "digit_char n = ''0123456789'' ! n"

fun str_nat :: "nat \<Rightarrow> string" where
  "str_nat n = (if n < 10 then [digit_char n] else str_nat (n div 10) @ [digit_char (n mod 10)])"

declare str_nat.simps [simp del]

definition py_str_int :: "int \<Rightarrow> string" where
  \<comment> \<open>\<open>str(i)\<close>, which is what an f-string writes for an integer.\<close>
  "py_str_int i = (if i < 0 then CHR ''-'' # str_nat (nat (- i)) else str_nat (nat i))"

definition nl :: "string" where
  \<comment> \<open>the newline character, as a string\<close>
  "nl = [CHR 0x0A]"

definition str_isdigit :: "string \<Rightarrow> bool" where
  \<comment> \<open>\<open>s.isdigit()\<close>: false on the empty string.\<close>
  "str_isdigit s = (s \<noteq> [] \<and> list_all py_isdigit s)"

section \<open>Validation (utils.py)\<close>

definition validate_bugzilla_ticket :: "string \<Rightarrow> bool" where
  "validate_bugzilla_ticket ticket =
     (if ticket = [] then False
      else let ticket' = py_strip ticket in
        if ticket' = [] then False
        else str_isdigit ticket' \<and> length ticket' \<le> 50 \<and> length ticket' \<ge> 1)"

definition chop_final_newline :: "string \<Rightarrow> string" where
  \<comment> \<open>In a pattern, \<open>$\<close> matches at the end of the text and also just before a
      newline that ends it.\<close>
  "chop_final_newline s = (if s \<noteq> [] \<and> last s = CHR 0x0A then butlast s else s)"

definition username_char :: "char \<Rightarrow> bool" where
  \<comment> \<open>the class \<open>[a-zA-Z0-9\.\-]\<close>\<close>
  "username_char c = (ascii_alpha c \<or> ascii_digit c \<or> c = CHR ''.'' \<or> c = CHR ''-'')"

definition priority_name_char :: "char \<Rightarrow> bool" where
  \<comment> \<open>the class \<open>[a-zA-Z0-9_-]\<close>\<close>
  "priority_name_char c = (ascii_alpha c \<or> ascii_digit c \<or> c = CHR ''_'' \<or> c = CHR ''-'')"

definition match_username_pattern :: "string \<Rightarrow> bool" where
  \<comment> \<open>\<open>re.match(r'^[a-zA-Z][a-zA-Z0-9\.\-]*$', s)\<close>\<close>
  "match_username_pattern s =
     (case chop_final_newline s of [] \<Rightarrow> False | c # cs \<Rightarrow> ascii_alpha c \<and> list_all username_char cs)"

definition match_priority_name_pattern :: "string \<Rightarrow> bool" where
  \<comment> \<open>\<open>re.match(r'^[a-zA-Z0-9_-]+$', s)\<close>\<close>
  "match_priority_name_pattern s =
     (chop_final_newline s \<noteq> [] \<and> list_all priority_name_char (chop_final_newline s))"

definition strip_nonempty_lines :: "string \<Rightarrow> string list" where
  \<comment> \<open>\<open>[u.strip() for u in s.split('\n') if u.strip()]\<close>\<close>
  "strip_nonempty_lines s = map py_strip (filter (\<lambda>u. py_strip u \<noteq> []) (py_split (CHR 0x0A) s))"

definition validate_username :: "string \<Rightarrow> bool" where
  "validate_username username0 =
     (if username0 = [] then False
      else let username1 = py_strip username0 in
        if username1 = [] then False
        else let usernames = strip_nonempty_lines username1 in
          if usernames = [] then False
          else if list_ex (\<lambda>u. \<not> match_username_pattern u \<or> length u < 2 \<or> length u > 50) usernames
          then False
          else length usernames \<le> 10)"

definition validate_priority_name :: "string \<Rightarrow> bool" where
  "validate_priority_name priority_name0 =
     (if priority_name0 = [] then False
      else let name = py_strip priority_name0 in
        if name = [] then False
        else match_priority_name_pattern name
             \<and> length name \<ge> 2
             \<and> length name \<le> 50
             \<and> \<not> (hd name = CHR ''-'')
             \<and> \<not> (last name = CHR ''-''))"

section \<open>Naive datetimes\<close>

text \<open>
  A naive \<open>datetime\<close> is the number of microseconds since 0001-01-01 00:00:00
  (proleptic Gregorian calendar); the type holds the instants from there to
  9999-12-31 23:59:59.999999. Adding a \<open>timedelta\<close> whose result leaves that
  range raises \<open>OverflowError\<close>: \<open>add_days\<close> returns \<open>None\<close> there. (A
  \<open>timedelta\<close> of more than 999999999 days cannot be built either; its sum with
  a datetime is out of range in any case.) The calendar arithmetic of
  \<open>strftime\<close> is that of the standard library; the year is written with four
  digits, which is what every platform prints from the year 1000 on.
\<close>

type_synonym datetime = int

definition us_per_day :: int where
  "us_per_day = 86400000000"

definition datetime_max :: int where
  \<comment> \<open>3652059 days: the first instant after year 9999\<close>
  "datetime_max = 3652059 * 86400000000"

definition add_days :: "datetime \<Rightarrow> int \<Rightarrow> datetime option" where
  \<comment> \<open>\<open>t + timedelta(days=n)\<close>\<close>
  "add_days t n =
     (let r = t + n * us_per_day in if 0 \<le> r \<and> r < datetime_max then Some r else None)"

definition ymd_of_days :: "int \<Rightarrow> int \<times> int \<times> int" where
  \<comment> \<open>year, month and day of the day number \<open>d\<close> (0 is 0001-01-01)\<close>
  "ymd_of_days d =
     (let z = d + 306;
          era = z div 146097;
          doe = z mod 146097;
          yoe = (doe - doe div 1460 + doe div 36524 - doe div 146096) div 365;
          doy = doe - (365 * yoe + yoe div 4 - yoe div 100);
          mp = (5 * doy + 2) div 153;
          dd = doy - (153 * mp + 2) div 5 + 1;
          mm = (if mp < 10 then mp + 3 else mp - 9);
          yy = yoe + era * 400 + (if mm \<le> 2 then 1 else 0)
      in (yy, mm, dd))"

definition zpad :: "nat \<Rightarrow> int \<Rightarrow> string" where
  \<comment> \<open>a non-negative number, zero-padded to \<open>w\<close> digits\<close>
  "zpad w n = (let s = py_str_int n in replicate (w - length s) (CHR ''0'') @ s)"

definition minute_of :: "datetime \<Rightarrow> int" where
  \<comment> \<open>the minute an instant falls in, counted from the epoch\<close>
  "minute_of t = t div 60000000"

definition strftime_YmdHM :: "datetime \<Rightarrow> string" where
  \<comment> \<open>\<open>t.strftime('%Y%m%d%H%M')\<close>\<close>
  "strftime_YmdHM t =
     (let m = minute_of t; (yy, mm, dd) = ymd_of_days (m div 1440)
      in zpad 4 yy @ zpad 2 mm @ zpad 2 dd @ zpad 2 ((m mod 1440) div 60) @ zpad 2 (m mod 60))"

definition strftime_Ymd_HM :: "datetime \<Rightarrow> string" where
  \<comment> \<open>\<open>t.strftime('%Y-%m-%d %H:%M')\<close>\<close>
  "strftime_Ymd_HM t =
     (let m = minute_of t; (yy, mm, dd) = ymd_of_days (m div 1440)
      in zpad 4 yy @ ''-'' @ zpad 2 mm @ ''-'' @ zpad 2 dd @ '' ''
         @ zpad 2 ((m mod 1440) div 60) @ '':'' @ zpad 2 (m mod 60))"

definition strftime_Ymd_HMS :: "datetime \<Rightarrow> string" where
  \<comment> \<open>\<open>t.strftime('%Y-%m-%d %H:%M:%S')\<close>\<close>
  "strftime_Ymd_HMS t =
     strftime_Ymd_HM t @ '':'' @ zpad 2 ((t div 1000000) mod 60)"

section \<open>Data model (models.py)\<close>

record User =
  user_ident :: int \<comment> \<open>\<open>id\<close>\<close>
  oidc_sub :: string
  username :: string
  email :: string
  first_name :: string
  last_name :: string

text \<open>
  A nullable column is an \<open>option\<close>. \<open>user\<close> is the row of the requester that
  the relationship \<open>Priority.user\<close> loads. \<open>status\<close> is a string column, as in
  the source.
\<close>

record Priority =
  priority_ident :: int \<comment> \<open>\<open>id\<close>\<close>
  user_id :: int
  user :: User
  bugzilla_ticket :: string
  additional_usernames :: "string option"
  slurm_project :: string
  gpu_type :: string
  gpu_count :: int
  duration_days :: int
  reason :: string
  status :: string
  admin_message :: "string option"
  priority_name :: "string option"
  status_updated_at :: "datetime option"
  status_updated_by :: "string option"
  slurm_command :: "string option"
  created_at :: datetime
  updated_at :: datetime

definition truthy :: "string option \<Rightarrow> bool" where
  \<comment> \<open>Python's truth value of a nullable string: \<open>None\<close> and the empty string are false.\<close>
  "truthy v = (case v of None \<Rightarrow> False | Some s \<Rightarrow> s \<noteq> [])"

definition additional_usernames_list :: "Priority \<Rightarrow> string list" where
  "additional_usernames_list p =
     (case additional_usernames p of
        None \<Rightarrow> []
      | Some s \<Rightarrow>
          if s = [] then [] else strip_nonempty_lines s)"

definition valid_until :: "Priority \<Rightarrow> datetime option option" where
  \<comment> \<open>The outer \<open>None\<close> is the \<open>OverflowError\<close> of the addition; \<open>Some None\<close> is
      the property's \<open>None\<close>.\<close>
  "valid_until p =
     (case status_updated_at p of
        Some t \<Rightarrow>
          if status p = ''accepted''
          then (case add_days t (duration_days p) of None \<Rightarrow> None | Some e \<Rightarrow> Some (Some e))
          else Some None
      | None \<Rightarrow> Some None)"

definition is_archived :: "datetime \<Rightarrow> Priority \<Rightarrow> bool option" where
  \<comment> \<open>The property \<open>is_archived\<close>, read at the clock value \<open>now\<close>; \<open>None\<close> is an
      \<open>OverflowError\<close>.\<close>
  "is_archived now p =
     (case valid_until p of
        None \<Rightarrow> None
      | Some None \<Rightarrow> Some False
      | Some (Some e) \<Rightarrow>
          (case add_days e 7 of None \<Rightarrow> None | Some archive_cutoff \<Rightarrow> Some (now > archive_cutoff)))"

section \<open>Command generator (utils.py)\<close>

definition qos_name_of :: "string \<Rightarrow> int \<Rightarrow> string" where
  \<comment> \<open>\<open>f"prio-{base_qos_name}-{priority.duration_days}d"\<close>\<close>
  "qos_name_of base d = ''prio-'' @ base @ ''-'' @ py_str_int d @ ''d''"

definition all_users_of :: "Priority \<Rightarrow> string list" where
  "all_users_of p = username (user p) # additional_usernames_list p"

definition header_lines :: "datetime \<Rightarrow> Priority \<Rightarrow> string \<Rightarrow> string list" where
  "header_lines gnow p base =
     [''# GPU Priority Commands for Ticket: '' @ bugzilla_ticket p,
      ''# Generated on: '' @ strftime_Ymd_HMS gnow,
      ''# Base Priority Name: '' @ base,
      ''# QOS Name: '' @ qos_name_of base (duration_days p),
      ''# Users: '' @ py_join '', '' (all_users_of p),
      []]"

definition qos_cmd :: "Priority \<Rightarrow> string \<Rightarrow> string" where
  "qos_cmd p qos =
     ''sacctmgr add qos '' @ qos @ '' ''
     @ ''GrpTRES=gres/gpu:'' @ gpu_type p @ ''='' @ py_str_int (gpu_count p) @ '' ''
     @ ''MaxWall='' @ py_str_int (duration_days p) @ ''-0 ''
     @ ''Priority=1000''"

definition user_cmd :: "Priority \<Rightarrow> string \<Rightarrow> string \<Rightarrow> string" where
  "user_cmd p qos u =
     ''sacctmgr modify user '' @ u @ '' ''
     @ ''set qos+='' @ qos @ '' ''
     @ ''where account='' @ slurm_project p"

definition cleanup_cmd :: "string \<Rightarrow> datetime \<Rightarrow> string" where
  "cleanup_cmd qos cleanup_date =
     ''echo '' @ [CHR 0x27] @ ''sacctmgr -i delete qos '' @ qos @ [CHR 0x27] @ '' | ''
     @ ''at -t '' @ strftime_YmdHM cleanup_date"

definition cleanup_lines :: "string \<Rightarrow> datetime option \<Rightarrow> string list" where
  \<comment> \<open>The block under \<open>if priority.status_updated_at:\<close>, given the cleanup date.\<close>
  "cleanup_lines qos cleanup =
     (case cleanup of
        None \<Rightarrow> []
      | Some cleanup_date \<Rightarrow> [[], ''# Schedule QOS cleanup'', cleanup_cmd qos cleanup_date])"

definition commands_of :: "datetime \<Rightarrow> Priority \<Rightarrow> string \<Rightarrow> datetime option \<Rightarrow> string list" where
  \<comment> \<open>The list \<open>commands\<close> at the end of the \<open>try\<close> block.\<close>
  "commands_of gnow p base cleanup =
     (let qos = qos_name_of base (duration_days p) in
        header_lines gnow p base
        @ [''# Create QOS with resource limits'', qos_cmd p qos]
        @ [[], ''# Assign QOS to users'']
        @ map (user_cmd p qos) (all_users_of p)
        @ cleanup_lines qos cleanup
        @ [[], ''# Verification commands'',
           ''sacctmgr show qos '' @ qos,
           ''squeue -u '' @ py_join '','' (all_users_of p)])"

definition cleanup_date_of :: "Priority \<Rightarrow> datetime option option" where
  \<comment> \<open>The value of \<open>cleanup_date\<close>: \<open>Some None\<close> when there is no
      \<open>status_updated_at\<close> and the block is skipped, \<open>None\<close> when the addition
      raises \<open>OverflowError\<close>.\<close>
  "cleanup_date_of p =
     (case status_updated_at p of
        None \<Rightarrow> Some None
      | Some t \<Rightarrow>
          (case add_days t (duration_days p) of
             None \<Rightarrow> None
           | Some cleanup_date \<Rightarrow> Some (Some cleanup_date)))"

definition build_commands :: "datetime \<Rightarrow> Priority \<Rightarrow> string list option" where
  \<comment> \<open>The \<open>try\<close> block up to the join: \<open>Some\<close> of the list \<open>commands\<close>, or \<open>None\<close>
      where the function returns \<open>None\<close>. \<open>gnow\<close> is the reading of
      \<open>datetime.utcnow()\<close> for the header. An \<open>OverflowError\<close> of the date
      addition is caught by the \<open>except\<close> clause, which returns \<open>None\<close>. The
      handlers always pass a row, so the test \<open>not priority\<close> is false.\<close>
  "build_commands gnow p =
     (if \<not> truthy (priority_name p) then None
      else
        let base = the (priority_name p) in
        (case status_updated_at p of
           None \<Rightarrow> Some (commands_of gnow p base None)
         | Some t \<Rightarrow>
             (case add_days t (duration_days p) of
                None \<Rightarrow> None
              | Some cleanup_date \<Rightarrow> Some (commands_of gnow p base (Some cleanup_date)))))"

definition generate_slurm_command :: "datetime \<Rightarrow> Priority \<Rightarrow> string option" where
  \<comment> \<open>\<open>result = '\n'.join(commands)\<close>\<close>
  "generate_slurm_command gnow p =
     (case build_commands gnow p of None \<Rightarrow> None | Some commands \<Rightarrow> Some (py_join nl commands))"

section \<open>User creation (utils.py, get_or_create_user)\<close>

record user_info =
  \<comment> \<open>the OIDC claims; \<open>None\<close> is an absent key\<close>
  ui_sub :: "string option"
  ui_preferred_username :: "string option"
  ui_email :: "string option"
  ui_given_name :: "string option"
  ui_family_name :: "string option"

datatype py_value = PyStr string | PyList "string list"

definition get_default :: "string option \<Rightarrow> string" where
  \<comment> \<open>\<open>d.get(key, '')\<close>\<close>
  "get_default v = (case v of None \<Rightarrow> [] | Some s \<Rightarrow> s)"

definition new_user_username :: "user_info \<Rightarrow> py_value" where
  \<comment> \<open>The value of the local \<open>username\<close> that the branch \<open>if not user:\<close> gives to
      \<open>User(...)\<close>.\<close>
  "new_user_username ui =
     (if truthy (ui_preferred_username ui) then PyStr (the (ui_preferred_username ui))
      else let email = get_default (ui_email ui) in
        if CHR ''@'' \<in> set email then PyList (py_split (CHR ''@'') email) else PyStr ''user'')"

section \<open>Request handlers (app.py)\<close>

text \<open>
  The store is the list of rows of the table \<open>priorities\<close>, in the order in which
  \<open>query.all()\<close> returns them. A handler returns \<open>Inr\<close> of the store after its
  commit, or \<open>Inl\<close> of an error; after an error the store is as it was (nothing
  was committed, or the transaction was rolled back).
\<close>

datatype error =
    ValidationError "string list" \<comment> \<open>the messages flashed by a failed check\<close>
  | NotFound \<comment> \<open>\<open>get_or_404\<close> found no row\<close>
  | DuplicateTicket \<comment> \<open>the unique constraint on \<open>bugzilla_ticket\<close>\<close>
  | SessionExpired
  | InternalError \<comment> \<open>an exception that no handler catches\<close>

definition store_after :: "Priority list \<Rightarrow> error + Priority list \<Rightarrow> Priority list" where
  "store_after store r = (case r of Inl e \<Rightarrow> store | Inr store' \<Rightarrow> store')"

record clock =
  \<comment> \<open>the clock readings of one request\<close>
  utcnow_stamp :: datetime \<comment> \<open>\<open>datetime.utcnow()\<close> in the handler\<close>
  utcnow_generate :: datetime \<comment> \<open>\<open>datetime.utcnow()\<close> in \<open>generate_slurm_command\<close>\<close>
  zurich_now :: datetime \<comment> \<open>\<open>zurich_now()\<close>, as local wall-clock time\<close>
  utcnow_commit :: datetime \<comment> \<open>\<open>datetime.utcnow()\<close> of \<open>onupdate\<close>, at the commit\<close>

definition db_commit :: "datetime \<Rightarrow> Priority \<Rightarrow> Priority \<Rightarrow> Priority" where
  \<comment> \<open>The row written for a loaded row \<open>old\<close> changed into \<open>new\<close>: an UPDATE is
      issued when a column changed, and then \<open>onupdate\<close> sets \<open>updated_at\<close>.\<close>
  "db_commit cnow old new = (if new = old then new else new\<lparr>updated_at := cnow\<rparr>)"

definition get_row :: "int \<Rightarrow> Priority list \<Rightarrow> Priority option" where
  "get_row i store = find (\<lambda>q. priority_ident q = i) store"

definition put_row :: "Priority \<Rightarrow> Priority list \<Rightarrow> Priority list" where
  "put_row p store = map (\<lambda>q. if priority_ident q = priority_ident p then p else q) store"

subsection \<open>submit_priority and confirm_priority\<close>

record priority_form =
  \<comment> \<open>\<open>request.form\<close>, an absent text field being the empty string; a numeric
      field is the outcome of \<open>int(request.form.get(name, 0) or 0)\<close>, \<open>None\<close> when
      \<open>int\<close> raises \<open>ValueError\<close>\<close>
  form_bugzilla_ticket :: string
  form_username :: string
  form_additional_usernames :: string
  form_slurm_project :: string
  form_gpu_type :: string
  form_gpu_count :: "int option"
  form_duration_days :: "int option"
  form_reason :: string

record priority_data =
  \<comment> \<open>the dictionary \<open>data\<close>\<close>
  data_bugzilla_ticket :: string
  data_username :: string
  data_additional_usernames :: string
  data_slurm_project :: string
  data_gpu_type :: string
  data_gpu_count :: int
  data_duration_days :: int
  data_reason :: string

definition form_to_data :: "priority_form \<Rightarrow> priority_data option" where
  "form_to_data f =
     (case form_gpu_count f of
        None \<Rightarrow> None
      | Some g \<Rightarrow>
          (case form_duration_days f of
             None \<Rightarrow> None
           | Some d \<Rightarrow>
               Some \<lparr>data_bugzilla_ticket = py_strip (form_bugzilla_ticket f),
                     data_username = py_strip (form_username f),
                     data_additional_usernames = py_strip (form_additional_usernames f),
                     data_slurm_project = py_strip (form_slurm_project f),
                     data_gpu_type = form_gpu_type f,
                     data_gpu_count = g,
                     data_duration_days = d,
                     data_reason = py_strip (form_reason f)\<rparr>))"

definition ticket_violated :: "priority_data \<Rightarrow> bool" where
  "ticket_violated d = (\<not> validate_bugzilla_ticket (data_bugzilla_ticket d))"

definition username_violated :: "priority_data \<Rightarrow> bool" where
  "username_violated d = (data_username d = [])"

definition additional_violated :: "priority_data \<Rightarrow> bool" where
  "additional_violated d =
     (data_additional_usernames d \<noteq> [] \<and> \<not> validate_username (data_additional_usernames d))"

definition project_violated :: "priority_data \<Rightarrow> bool" where
  "project_violated d = (data_slurm_project d = [] \<or> \<not> validate_username (data_slurm_project d))"

definition gpu_type_violated :: "priority_data \<Rightarrow> bool" where
  "gpu_type_violated d =
     (data_gpu_type d = [] \<or> data_gpu_type d \<notin> set [''rtx3090'', ''v100'', ''h100''])"

definition gpu_count_violated :: "priority_data \<Rightarrow> bool" where
  "gpu_count_violated d = (data_gpu_count d = 0 \<or> data_gpu_count d < 1)"

definition duration_violated :: "priority_data \<Rightarrow> bool" where
  "duration_violated d =
     (data_duration_days d = 0 \<or> data_duration_days d < 1 \<or> data_duration_days d > 14)"

definition reason_violated :: "priority_data \<Rightarrow> bool" where
  "reason_violated d = (data_reason d = [])"

definition submit_errors :: "priority_data \<Rightarrow> string list" where
  \<comment> \<open>the list \<open>errors\<close> after the last check: each check appends its message\<close>
  "submit_errors d =
     (if ticket_violated d then [''Invalid Bugzilla ticket format''] else [])
     @ (if username_violated d then [''Username is required''] else [])
     @ (if additional_violated d then [''Invalid additional usernames format''] else [])
     @ (if project_violated d then [''Valid SLURM project is required''] else [])
     @ (if gpu_type_violated d then [''Valid GPU type is required''] else [])
     @ (if gpu_count_violated d then [''GPU count must be at least 1''] else [])
     @ (if duration_violated d
        then [''Duration must be between 1 and 14 days (maximum 2 weeks)''] else [])
     @ (if reason_violated d then [''Reason is required''] else [])"

definition submit_priority :: "priority_form \<Rightarrow> error + priority_data" where
  \<comment> \<open>\<open>Inr data\<close>: the data is put in the session and the confirmation page shown.\<close>
  "submit_priority f =
     (case form_to_data f of
        None \<Rightarrow> Inl InternalError
      | Some d \<Rightarrow> if submit_errors d \<noteq> [] then Inl (ValidationError (submit_errors d)) else Inr d)"

definition fresh_ident :: "Priority list \<Rightarrow> int" where
  \<comment> \<open>the primary key that the database gives to a new row\<close>
  "fresh_ident store = foldr max (map priority_ident store) 0 + 1"

definition new_priority :: "datetime \<Rightarrow> int \<Rightarrow> User \<Rightarrow> priority_data \<Rightarrow> Priority" where
  \<comment> \<open>\<open>Priority(...)\<close> as inserted: the columns that the constructor does not
      name take their defaults.\<close>
  "new_priority now i g_user d =
     \<lparr>priority_ident = i,
      user_id = user_ident g_user,
      user = g_user,
      bugzilla_ticket = data_bugzilla_ticket d,
      additional_usernames =
        (if data_additional_usernames d \<noteq> [] then Some (data_additional_usernames d) else None),
      slurm_project = data_slurm_project d,
      gpu_type = data_gpu_type d,
      gpu_count = data_gpu_count d,
      duration_days = data_duration_days d,
      reason = data_reason d,
      status = ''pending'',
      admin_message = None,
      priority_name = None,
      status_updated_at = None,
      status_updated_by = None,
      slurm_command = None,
      created_at = now,
      updated_at = now\<rparr>"

definition confirm_priority :: "datetime \<Rightarrow> User \<Rightarrow> priority_data \<Rightarrow> Priority list \<Rightarrow> error + Priority list" where
  "confirm_priority now g_user d store =
     (if user_ident g_user = 0 then Inl SessionExpired
      else if list_ex (\<lambda>q. bugzilla_ticket q = data_bugzilla_ticket d) store then Inl DuplicateTicket
      else Inr (store @ [new_priority now (fresh_ident store) g_user d]))"

definition submit :: "datetime \<Rightarrow> User \<Rightarrow> priority_form \<Rightarrow> Priority list \<Rightarrow> error + Priority list" where
  \<comment> \<open>A submission: \<open>submit_priority\<close>, then \<open>confirm_priority\<close> on the data that the
      session carried to the confirmation page.\<close>
  "submit now g_user f store =
     (case submit_priority f of Inl e \<Rightarrow> Inl e | Inr d \<Rightarrow> confirm_priority now g_user d store)"

subsection \<open>Administrator actions\<close>

definition format_message :: "datetime \<Rightarrow> string \<Rightarrow> string \<Rightarrow> string" where
  \<comment> \<open>\<open>f"[{timestamp}] {g.user.username}: {message}"\<close>\<close>
  "format_message znow admin msg = ''['' @ strftime_Ymd_HM znow @ ''] '' @ admin @ '': '' @ msg"

definition append_admin_message :: "string \<Rightarrow> Priority \<Rightarrow> Priority" where
  "append_admin_message new_message p =
     (if truthy (admin_message p)
      then p\<lparr>admin_message := Some (the (admin_message p) @ nl @ nl @ new_message)\<rparr>
      else p\<lparr>admin_message := Some new_message\<rparr>)"

definition acceptance_text :: "string \<Rightarrow> string" where
  "acceptance_text pname =
     ''Priority accepted and configured with name '' @ [CHR 0x27] @ pname @ [CHR 0x27]"

definition apply_status_update :: "clock \<Rightarrow> string \<Rightarrow> string \<Rightarrow> string \<Rightarrow> string \<Rightarrow> Priority \<Rightarrow> Priority" where
  \<comment> \<open>The assignments of \<open>update_priority_status\<close> between \<open>get_or_404\<close> and the
      commit.\<close>
  "apply_status_update clk admin new_status admin_msg pname p =
     (let p1 = p\<lparr>status := new_status,
                  status_updated_at := Some (utcnow_stamp clk),
                  status_updated_by := Some admin\<rparr>;
          p2 = (if admin_msg \<noteq> []
                then append_admin_message (format_message (zurich_now clk) admin admin_msg) p1
                else p1)
      in if new_status = ''accepted'' then
           (let p3 = p2\<lparr>priority_name := Some pname\<rparr>;
                p4 = p3\<lparr>slurm_command := generate_slurm_command (utcnow_generate clk) p3\<rparr>
            in if admin_msg = []
               then append_admin_message
                      (format_message (zurich_now clk) admin (acceptance_text pname)) p4
               else p4)
         else if new_status = ''refused'' then p2\<lparr>priority_name := None, slurm_command := None\<rparr>
         else p2)"

definition update_priority_status ::
  "clock \<Rightarrow> string \<Rightarrow> int option \<Rightarrow> string option \<Rightarrow> string \<Rightarrow> string \<Rightarrow> Priority list
    \<Rightarrow> error + Priority list" where
  \<comment> \<open>\<open>admin\<close> is \<open>g.user.username\<close>; \<open>priority_id\<close> is \<open>None\<close> for an absent or
      empty form field; \<open>new_status\<close> is \<open>None\<close> for an absent one.\<close>
  "update_priority_status clk admin priority_id new_status admin_message_raw priority_name_raw store =
     (let admin_msg = py_strip admin_message_raw;
          pname = py_strip priority_name_raw
      in if priority_id = None
            \<or> new_status \<notin> set [Some ''pending'', Some ''accepted'', Some ''refused'']
         then Inl (ValidationError [''Invalid priority or status''])
         else if new_status = Some ''accepted'' \<and> pname = []
         then Inl (ValidationError [''Priority name is required when accepting a priority''])
         else if pname \<noteq> [] \<and> \<not> validate_priority_name pname
         then Inl (ValidationError
                [''Invalid priority name. Use only letters, numbers, underscores, and hyphens''])
         else (case get_row (the priority_id) store of
                 None \<Rightarrow> Inl NotFound
               | Some p \<Rightarrow>
                   Inr (put_row (db_commit (utcnow_commit clk) p
                          (apply_status_update clk admin (the new_status) admin_msg pname p)) store)))"

definition apply_users_update :: "clock \<Rightarrow> string \<Rightarrow> Priority \<Rightarrow> Priority" where
  \<comment> \<open>The assignments of \<open>update_priority_users\<close> between \<open>get_or_404\<close> and the
      commit.\<close>
  "apply_users_update clk additional p =
     (let p1 = p\<lparr>additional_usernames := (if additional \<noteq> [] then Some additional else None)\<rparr>
      in if status p1 = ''accepted'' \<and> truthy (priority_name p1)
         then p1\<lparr>slurm_command := generate_slurm_command (utcnow_generate clk) p1\<rparr>
         else p1)"

definition update_priority_users ::
  "clock \<Rightarrow> int option \<Rightarrow> string \<Rightarrow> Priority list \<Rightarrow> error + Priority list" where
  "update_priority_users clk priority_id additional_raw store =
     (let additional = py_strip additional_raw
      in if priority_id = None then Inl (ValidationError [''Invalid priority ID''])
         else if additional \<noteq> [] \<and> \<not> validate_username additional
         then Inl (ValidationError [''Invalid additional usernames format''])
         else (case get_row (the priority_id) store of
                 None \<Rightarrow> Inl NotFound
               | Some p \<Rightarrow>
                   Inr (put_row (db_commit (utcnow_commit clk) p
                          (apply_users_update clk additional p)) store)))"

definition apply_add_message :: "clock \<Rightarrow> string \<Rightarrow> string \<Rightarrow> Priority \<Rightarrow> Priority" where
  "apply_add_message clk admin msg p =
     append_admin_message (format_message (zurich_now clk) admin msg) p"

definition add_message ::
  "clock \<Rightarrow> string \<Rightarrow> int option \<Rightarrow> string \<Rightarrow> Priority list \<Rightarrow> error + Priority list" where
  "add_message clk admin priority_id message_raw store =
     (let msg = py_strip message_raw
      in if priority_id = None \<or> msg = []
         then Inl (ValidationError [''Priority ID and message are required''])
         else (case get_row (the priority_id) store of
                 None \<Rightarrow> Inl NotFound
               | Some p \<Rightarrow>
                   Inr (put_row (db_commit (utcnow_commit clk) p
                          (apply_add_message clk admin msg p)) store)))"

subsection \<open>Listings\<close>

definition should_include :: "datetime \<Rightarrow> Priority \<Rightarrow> bool option" where
  \<comment> \<open>The body of the filter loop of \<open>my_priorities\<close> and \<open>admin_panel\<close>; \<open>None\<close> is
      the \<open>OverflowError\<close> of a date addition.\<close>
  "should_include current_time p =
     (case status_updated_at p of
        None \<Rightarrow> Some True
      | Some t \<Rightarrow>
          if status p = ''accepted'' then
            (case add_days t (duration_days p) of
               None \<Rightarrow> None
             | Some expiry_date \<Rightarrow>
                 (case add_days expiry_date 7 of
                    None \<Rightarrow> None
                  | Some archive_cutoff \<Rightarrow> Some (\<not> current_time > archive_cutoff)))
          else Some True)"

fun filter_archived :: "datetime \<Rightarrow> Priority list \<Rightarrow> Priority list option" where
  "filter_archived current_time [] = Some []"
| "filter_archived current_time (p # ps) =
     (case should_include current_time p of
        None \<Rightarrow> None
      | Some inc \<Rightarrow>
          (case filter_archived current_time ps of
             None \<Rightarrow> None
           | Some filtered \<Rightarrow> Some (if inc then p # filtered else filtered)))"

definition sort_created_desc :: "Priority list \<Rightarrow> Priority list" where
  \<comment> \<open>\<open>sorted(priorities, key=lambda x: x.created_at, reverse=True)\<close>: stable, so
      rows created at the same instant keep their order.\<close>
  "sort_created_desc ps = sort_key (\<lambda>x. - created_at x) ps"

definition listing :: "bool \<Rightarrow> datetime \<Rightarrow> Priority list \<Rightarrow> error + Priority list" where
  \<comment> \<open>What both listing handlers do with the rows of their query.\<close>
  "listing show_archived current_time priorities =
     (if \<not> show_archived then
        (case filter_archived current_time priorities of
           None \<Rightarrow> Inl InternalError
         | Some filtered \<Rightarrow> Inr (sort_created_desc filtered))
      else Inr (sort_created_desc priorities))"

definition my_priorities :: "bool \<Rightarrow> datetime \<Rightarrow> User \<Rightarrow> Priority list \<Rightarrow> error + Priority list" where
  "my_priorities show_archived current_time g_user store =
     listing show_archived current_time (filter (\<lambda>q. user_id q = user_ident g_user) store)"

definition admin_panel :: "bool \<Rightarrow> datetime \<Rightarrow> Priority list \<Rightarrow> error + Priority list" where
  "admin_panel show_archived current_time store = listing show_archived current_time store"

section \<open>Predicates of the specification and example data\<close>

definition example_user :: User where
  "example_user = \<lparr>user_ident = 1, oidc_sub = ''sub-1'', username = ''alice'',
     email = ''alice@example.org'', first_name = ''Alice'', last_name = ''A''\<rparr>"

definition example_accepted :: Priority where
  \<comment> \<open>accepted on 2024-01-02 at 09:05:07.000123, for ten days\<close>
  "example_accepted = \<lparr>priority_ident = 1, user_id = 1, user = example_user,
     bugzilla_ticket = ''12345'', additional_usernames = Some ''bob'',
     slurm_project = ''proj'', gpu_type = ''h100'', gpu_count = 2, duration_days = 10,
     reason = ''training run'', status = ''accepted'', admin_message = None,
     priority_name = Some ''teamA-burst'',
     status_updated_at = Some 63839783107000123, status_updated_by = Some ''root'',
     slurm_command = None, created_at = 63839000000000000, updated_at = 63839000000000000\<rparr>"

definition example_unstamped :: Priority where
  "example_unstamped = example_accepted\<lparr>status_updated_at := None\<rparr>"

definition example_user_info :: user_info where
  "example_user_info = \<lparr>ui_sub = Some ''sub-1'', ui_preferred_username = Some [],
     ui_email = Some ''alice@example.org'', ui_given_name = Some ''Alice'',
     ui_family_name = Some ''A''\<rparr>"

definition archived :: "datetime \<Rightarrow> Priority \<Rightarrow> bool" where
  \<comment> \<open>In the words of the specification: the status is accepted and
      \<open>status_transition_time + duration_days + 7 days < now\<close>.\<close>
  "archived now p =
     (status p = ''accepted''
      \<and> (case status_updated_at p of
           None \<Rightarrow> False
         | Some t \<Rightarrow> t + duration_days p * us_per_day + 7 * us_per_day < now))"

definition example_week :: Priority where
  \<comment> \<open>accepted on 2024-01-02 at 09:05:07.000123, for seven days\<close>
  "example_week = example_accepted\<lparr>duration_days := 7\<rparr>"

definition example_pending :: Priority where
  "example_pending = example_accepted\<lparr>priority_ident := 2, bugzilla_ticket := ''777'',
     status := ''pending'', priority_name := None, status_updated_at := None,
     status_updated_by := None, created_at := 63839000000000001\<rparr>"

definition example_form :: priority_form where
  "example_form = \<lparr>form_bugzilla_ticket = ''12345'', form_username = ''alice'',
     form_additional_usernames = [], form_slurm_project = ''proj'', form_gpu_type = ''h100'',
     form_gpu_count = Some 0, form_duration_days = Some 20, form_reason = ''training run''\<rparr>"

definition example_clock :: clock where
  \<comment> \<open>2024-01-03, 11:00:00 UTC and 12:00 in Zurich\<close>
  "example_clock = \<lparr>utcnow_stamp = 63839876400000000, utcnow_generate = 63839876400000050,
     zurich_now = 63839880000000020, utcnow_commit = 63839876400000900\<rparr>"

definition example_users_raw :: string where
  \<comment> \<open>three lines: \<open>bob\<close>, \<open>carol\<close> between spaces, and \<open>bob\<close> again\<close>
  "example_users_raw = ''bob'' @ nl @ '' carol '' @ nl @ ''bob''"

definition fields_invariant :: "Priority \<Rightarrow> bool" where
  \<comment> \<open>In the words of the specification: \<open>priority_name\<close> and \<open>slurm_command\<close> are
      non-null iff the status is accepted.\<close>
  "fields_invariant p =
     (if status p = ''accepted''
      then priority_name p \<noteq> None \<and> slurm_command p \<noteq> None
      else priority_name p = None \<and> slurm_command p = None)"

definition cleanup_in_range :: "clock \<Rightarrow> Priority \<Rightarrow> bool" where
  \<comment> \<open>No cleanup date of the request leaves the range of \<open>datetime\<close>: neither the
      one counted from its timestamp nor the one counted from the clock.\<close>
  "cleanup_in_range clk p =
     (add_days (utcnow_stamp clk) (duration_days p) \<noteq> None \<and> cleanup_date_of p \<noteq> None)"

definition example_after_accept :: "Priority list" where
  \<comment> \<open>the store with \<open>example_pending\<close> after its acceptance under the name
      \<open>teamA-burst\<close>\<close>
  "example_after_accept =
     store_after [example_pending]
       (update_priority_status example_clock ''root'' (Some 2) (Some ''accepted'') []
          ''teamA-burst'' [example_pending])"

definition rule_ticket :: "string \<Rightarrow> bool" where
  \<comment> \<open>In the words of the specification: a string of digits, 1 to 50 characters.\<close>
  "rule_ticket s = (s \<noteq> [] \<and> list_all py_isdigit s \<and> 1 \<le> length s \<and> length s \<le> 50)"

definition rule_username_entry :: "string \<Rightarrow> bool" where
  \<comment> \<open>In the words of the specification: an entry is a letter followed by
      letters, digits, dots and hyphens, and has length 2 to 50.\<close>
  "rule_username_entry e =
     ((case e of [] \<Rightarrow> False | c # cs \<Rightarrow> ascii_alpha c \<and> list_all username_char cs)
      \<and> 2 \<le> length e \<and> length e \<le> 50)"

definition rule_username_block :: "string \<Rightarrow> bool" where
  \<comment> \<open>In the words of the specification: split on newlines, trim each line, drop
      the empty ones; at least one entry and at most 10, each a valid entry.\<close>
  "rule_username_block s =
     (let entries = strip_nonempty_lines s
      in entries \<noteq> [] \<and> length entries \<le> 10 \<and> list_all rule_username_entry entries)"

definition example_form_bad_username :: priority_form where
  \<comment> \<open>a requester username that is not a valid username, and a duration of 20 days\<close>
  "example_form_bad_username = \<lparr>form_bugzilla_ticket = ''4242'', form_username = ''9 bad!!'',
     form_additional_usernames = [], form_slurm_project = ''proj'', form_gpu_type = ''h100'',
     form_gpu_count = Some 2, form_duration_days = Some 20, form_reason = ''training run''\<rparr>"

definition example_after_pending :: "Priority list" where
  \<comment> \<open>the store \<open>example_after_accept\<close> after a status update of its request to
      \<open>pending\<close>, with no message and no priority name in the form\<close>
  "example_after_pending =
     store_after example_after_accept
       (update_priority_status example_clock ''root'' (Some 2) (Some ''pending'') [] []
          example_after_accept)"

section \<open>Ticket validation\<close>

lemma py_strip_Nil: "py_strip [] = []"
  by (simp add: py_strip_def)

lemma strip_nonempty_lines_Nil: "strip_nonempty_lines [] = []"
  by (simp add: strip_nonempty_lines_def py_strip_Nil)

text \<open>
  C5. The claim reads: \<open>validate_ticket(t)\<close> is true iff \<open>t\<close> is non-empty, all
  digits and 1 to 50 characters long. The function strips \<open>t\<close> first, so a ticket
  with surrounding whitespace passes although it is not all digits.
\<close>

theorem validate_bugzilla_ticket_counterexample:
  "validate_bugzilla_ticket '' 12'' \<and> \<not> list_all py_isdigit '' 12''"
  by code_simp

text \<open>
  C5, as amended: \<open>validate_bugzilla_ticket t\<close> is true iff \<open>t\<close> without its
  leading and trailing whitespace is non-empty, consists of digits only and has
  at most 50 characters.
\<close>

theorem validate_bugzilla_ticket_strips:
  "validate_bugzilla_ticket t \<longleftrightarrow>
     (py_strip t \<noteq> [] \<and> list_all py_isdigit (py_strip t) \<and> length (py_strip t) \<le> 50)"
  by (cases "t = []")
     (auto simp: validate_bugzilla_ticket_def str_isdigit_def py_strip_Nil Let_def Suc_le_eq)

theorem validate_bugzilla_ticket_strips_witness:
  "validate_bugzilla_ticket '' 12'' \<and> py_strip '' 12'' = ''12''"
  using validate_bugzilla_ticket_strips [of "'' 12''"] by code_simp

section \<open>The command generator\<close>

lemma minute_of_seconds: "minute_of t = (t div 1000000) div 60"
  by (simp add: minute_of_def zdiv_zmult2_eq)

lemma strftime_Ymd_HMS_seconds:
  "t div 1000000 = t' div 1000000 \<Longrightarrow> strftime_Ymd_HMS t = strftime_Ymd_HMS t'"
  by (simp add: strftime_Ymd_HMS_def strftime_Ymd_HM_def minute_of_seconds)

lemma commands_of_seconds:
  "t div 1000000 = t' div 1000000 \<Longrightarrow> commands_of t p base c = commands_of t' p base c"
  by (simp add: commands_of_def header_lines_def strftime_Ymd_HMS_seconds [of t t'])

lemma commands_of_other_clock:
  "commands_of t' p base c = (commands_of t p base c)[1 := ''# Generated on: '' @ strftime_Ymd_HMS t']"
  by (simp add: commands_of_def header_lines_def Let_def)

lemma build_commands_eq:
  "build_commands g p =
     (if truthy (priority_name p)
      then map_option (commands_of g p (the (priority_name p))) (cleanup_date_of p)
      else None)"
  by (simp add: build_commands_def cleanup_date_of_def Let_def split: option.splits)

text \<open>
  C2. The claim reads: two invocations of the generator on the unchanged accepted
  request give byte-identical text. The second header line records the clock
  reading of the invocation, so two invocations one second apart differ.
\<close>

theorem generate_slurm_command_repeat_counterexample:
  "generate_slurm_command 63839783107000123 example_accepted
     \<noteq> generate_slurm_command 63839783108000123 example_accepted"
  by code_simp

text \<open>
  C2, as amended: two invocations on the unchanged request that read the same
  clock second give identical text; two invocations at any clock readings build
  the same list of lines except for line 1, the header line
  \<open># Generated on: ...\<close>, which holds the reading of the invocation.
\<close>

theorem generate_slurm_command_repeat:
  "(gnow div 1000000 = gnow' div 1000000 \<longrightarrow>
      generate_slurm_command gnow p = generate_slurm_command gnow' p)
   \<and> (\<forall>ls. build_commands gnow p = Some ls \<longrightarrow>
         build_commands gnow' p = Some (ls[1 := ''# Generated on: '' @ strftime_Ymd_HMS gnow']))"
proof (intro conjI impI allI)
  assume "gnow div 1000000 = gnow' div 1000000"
  then have "commands_of gnow p = commands_of gnow' p"
    by (intro ext) (rule commands_of_seconds)
  then have "build_commands gnow p = build_commands gnow' p"
    by (simp add: build_commands_eq)
  then show "generate_slurm_command gnow p = generate_slurm_command gnow' p"
    by (simp add: generate_slurm_command_def)
next
  fix ls
  assume "build_commands gnow p = Some ls"
  then obtain c where t: "truthy (priority_name p)" and c: "cleanup_date_of p = Some c"
    and ls: "ls = commands_of gnow p (the (priority_name p)) c"
    by (auto simp: build_commands_eq split: if_splits)
  have "commands_of gnow' p (the (priority_name p)) c
          = ls[1 := ''# Generated on: '' @ strftime_Ymd_HMS gnow']"
    unfolding ls by (rule commands_of_other_clock)
  with t c show "build_commands gnow' p = Some (ls[1 := ''# Generated on: '' @ strftime_Ymd_HMS gnow'])"
    by (simp add: build_commands_eq)
qed

theorem generate_slurm_command_repeat_witness:
  "(63839783107000123::int) div 1000000 = 63839783107999999 div 1000000
   \<and> generate_slurm_command 63839783107000123 example_accepted
       = generate_slurm_command 63839783107999999 example_accepted
   \<and> build_commands 63839783107000123 example_accepted \<noteq> None
   \<and> build_commands 63839783108000123 example_accepted
       = Some ((the (build_commands 63839783107000123 example_accepted))
                 [1 := ''# Generated on: 2024-01-02 09:05:08''])"
proof -
  have h: "(63839783107000123::int) div 1000000 = 63839783107999999 div 1000000"
    by simp
  have b: "build_commands 63839783107000123 example_accepted \<noteq> None"
    by code_simp
  then obtain ls where ls: "build_commands 63839783107000123 example_accepted = Some ls"
    by auto
  have s: "strftime_Ymd_HMS 63839783108000123 = ''2024-01-02 09:05:08''"
    by code_simp
  from generate_slurm_command_repeat [of 63839783107000123 63839783107999999 example_accepted] h
  have 1: "generate_slurm_command 63839783107000123 example_accepted
       = generate_slurm_command 63839783107999999 example_accepted" by blast
  from generate_slurm_command_repeat [of 63839783107000123 63839783108000123 example_accepted] ls
  have 2: "build_commands 63839783108000123 example_accepted
       = Some (ls[1 := ''# Generated on: '' @ strftime_Ymd_HMS 63839783108000123])" by blast
  show ?thesis using h b 1 2 ls s by simp
qed

lemma truthy_iff: "truthy v \<longleftrightarrow> (\<exists>s. v = Some s \<and> s \<noteq> [])"
  by (cases v) (simp_all add: truthy_def)

lemma cleanup_date_of_eq_None:
  "cleanup_date_of p = None \<longleftrightarrow> (\<exists>t. status_updated_at p = Some t \<and> add_days t (duration_days p) = None)"
  by (simp add: cleanup_date_of_def split: option.splits)

lemma add_days_Some: "add_days t n = Some c \<Longrightarrow> c = t + n * 86400000000"
  by (simp add: add_days_def us_per_day_def Let_def split: if_splits)

lemma generate_slurm_command_eq:
  "generate_slurm_command g p = map_option (py_join nl) (build_commands g p)"
  by (simp add: generate_slurm_command_def split: option.splits)

lemma strftime_YmdHM_minute: "strftime_YmdHM c = strftime_YmdHM (60000000 * (c div 60000000))"
  by (simp add: strftime_YmdHM_def minute_of_def)

text \<open>
  C4. Whatever text the generator returns is the join of its list of lines, and
  that list names the QOS \<open>prio-{priority_name}-{duration_days}d\<close> in the header,
  in the creation command and in the verification command; when the request has
  a status-transition timestamp \<open>t\<close>, the list holds the command that schedules
  the deletion of that QOS with \<open>at -t\<close> at \<open>t\<close> plus \<open>duration_days\<close> days, written
  as year, month, day, hour and minute: the seconds and microseconds of the
  instant do not show.
\<close>

theorem generate_slurm_command_qos_and_cleanup:
  assumes "generate_slurm_command gnow p = Some text"
  shows "\<exists>base ls. priority_name p = Some base \<and> build_commands gnow p = Some ls
      \<and> text = py_join nl ls
      \<and> (''# QOS Name: prio-'' @ base @ ''-'' @ py_str_int (duration_days p) @ ''d'') \<in> set ls
      \<and> (''sacctmgr add qos prio-'' @ base @ ''-'' @ py_str_int (duration_days p) @ ''d''
           @ '' GrpTRES=gres/gpu:'' @ gpu_type p @ ''='' @ py_str_int (gpu_count p)
           @ '' MaxWall='' @ py_str_int (duration_days p) @ ''-0 Priority=1000'') \<in> set ls
      \<and> (''sacctmgr show qos prio-'' @ base @ ''-'' @ py_str_int (duration_days p) @ ''d'') \<in> set ls
      \<and> (\<forall>t. status_updated_at p = Some t \<longrightarrow>
            (''echo '' @ [CHR 0x27] @ ''sacctmgr -i delete qos prio-'' @ base @ ''-''
               @ py_str_int (duration_days p) @ ''d'' @ [CHR 0x27] @ '' | at -t ''
               @ strftime_YmdHM (t + duration_days p * 86400000000)) \<in> set ls
            \<and> strftime_YmdHM (t + duration_days p * 86400000000)
                = strftime_YmdHM (60000000 * ((t + duration_days p * 86400000000) div 60000000)))"
proof -
  from assms obtain ls where ls: "build_commands gnow p = Some ls" and tx: "text = py_join nl ls"
    by (auto simp: generate_slurm_command_eq)
  from ls obtain base c where base: "priority_name p = Some base"
    and c: "cleanup_date_of p = Some c"
    and ls_eq: "ls = commands_of gnow p base c"
    by (auto simp: build_commands_eq truthy_iff split: if_splits)
  have 1: "(''# QOS Name: prio-'' @ base @ ''-'' @ py_str_int (duration_days p) @ ''d'') \<in> set ls"
    by (simp add: ls_eq commands_of_def header_lines_def qos_name_of_def Let_def)
  have 2: "(''sacctmgr add qos prio-'' @ base @ ''-'' @ py_str_int (duration_days p) @ ''d''
           @ '' GrpTRES=gres/gpu:'' @ gpu_type p @ ''='' @ py_str_int (gpu_count p)
           @ '' MaxWall='' @ py_str_int (duration_days p) @ ''-0 Priority=1000'') \<in> set ls"
    by (simp add: ls_eq commands_of_def qos_cmd_def qos_name_of_def Let_def)
  have 3: "(''sacctmgr show qos prio-'' @ base @ ''-'' @ py_str_int (duration_days p) @ ''d'') \<in> set ls"
    by (simp add: ls_eq commands_of_def qos_name_of_def Let_def)
  have 4: "(''echo '' @ [CHR 0x27] @ ''sacctmgr -i delete qos prio-'' @ base @ ''-''
               @ py_str_int (duration_days p) @ ''d'' @ [CHR 0x27] @ '' | at -t ''
               @ strftime_YmdHM (t + duration_days p * 86400000000)) \<in> set ls"
    if t: "status_updated_at p = Some t" for t
  proof -
    from c t obtain c' where "add_days t (duration_days p) = Some c'" and "c = Some c'"
      by (cases "add_days t (duration_days p)") (simp_all add: cleanup_date_of_def)
    then have "c = Some (t + duration_days p * 86400000000)"
      by (simp add: add_days_Some)
    then show ?thesis
      by (simp add: ls_eq commands_of_def cleanup_lines_def cleanup_cmd_def qos_name_of_def Let_def)
  qed
  show ?thesis
    using base ls tx 1 2 3 4 strftime_YmdHM_minute by blast
qed

theorem generate_slurm_command_qos_and_cleanup_witness:
  "\<exists>text. generate_slurm_command 63839783107000123 example_accepted = Some text
     \<and> priority_name example_accepted = Some ''teamA-burst''
     \<and> duration_days example_accepted = 10
     \<and> ''# QOS Name: prio-teamA-burst-10d''
          \<in> set (the (build_commands 63839783107000123 example_accepted))
     \<and> (''echo '' @ [CHR 0x27] @ ''sacctmgr -i delete qos prio-teamA-burst-10d'' @ [CHR 0x27]
          @ '' | at -t 202401120905'')
          \<in> set (the (build_commands 63839783107000123 example_accepted))"
proof -
  have "generate_slurm_command 63839783107000123 example_accepted \<noteq> None"
    by code_simp
  then obtain out where tx: "generate_slurm_command 63839783107000123 example_accepted = Some out"
    by auto
  have n: "priority_name example_accepted = Some ''teamA-burst''"
    and d: "duration_days example_accepted = 10"
    and t: "status_updated_at example_accepted = Some 63839783107000123"
    by (simp_all add: example_accepted_def)
  have s: "py_str_int 10 = ''10''"
    by code_simp
  have f: "strftime_YmdHM (63839783107000123 + 10 * 86400000000) = ''202401120905''"
    by code_simp
  from generate_slurm_command_qos_and_cleanup [OF tx] n d t s f
  show ?thesis using tx by auto
qed

text \<open>
  C6. The claim reads: the generator fails exactly when the priority name or the
  status-transition timestamp is missing. For a request with a priority name and
  no timestamp the generator returns a text: the block under
  \<open>if priority.status_updated_at:\<close> is skipped.
\<close>

theorem generate_slurm_command_fails_counterexample:
  "priority_name example_unstamped \<noteq> None \<and> status_updated_at example_unstamped = None
   \<and> generate_slurm_command 63839783107000123 example_unstamped \<noteq> None"
  by code_simp

text \<open>
  C6, as amended: the generator returns \<open>None\<close> exactly when the priority name is
  missing or empty, or when the request has a timestamp and the cleanup date,
  timestamp plus \<open>duration_days\<close> days, is outside the range of \<open>datetime\<close>. With a
  non-empty priority name it returns the joined command sequence: without the
  cleanup block when there is no timestamp, with it when there is one and the
  cleanup date is in range.
\<close>

theorem generate_slurm_command_fails_iff:
  "(generate_slurm_command gnow p = None \<longleftrightarrow>
      (priority_name p = None \<or> priority_name p = Some []
       \<or> (\<exists>t. status_updated_at p = Some t \<and> add_days t (duration_days p) = None)))
   \<and> (\<forall>base. priority_name p = Some base \<and> base \<noteq> [] \<and> status_updated_at p = None \<longrightarrow>
         generate_slurm_command gnow p = Some (py_join nl (commands_of gnow p base None)))
   \<and> (\<forall>base t c. priority_name p = Some base \<and> base \<noteq> [] \<and> status_updated_at p = Some t
           \<and> add_days t (duration_days p) = Some c \<longrightarrow>
         generate_slurm_command gnow p = Some (py_join nl (commands_of gnow p base (Some c))))"
proof (intro conjI allI impI)
  show "generate_slurm_command gnow p = None \<longleftrightarrow>
      (priority_name p = None \<or> priority_name p = Some []
       \<or> (\<exists>t. status_updated_at p = Some t \<and> add_days t (duration_days p) = None))"
    by (cases "priority_name p")
       (auto simp: generate_slurm_command_eq build_commands_eq truthy_def cleanup_date_of_eq_None)
next
  fix base
  assume "priority_name p = Some base \<and> base \<noteq> [] \<and> status_updated_at p = None"
  then show "generate_slurm_command gnow p = Some (py_join nl (commands_of gnow p base None))"
    by (simp add: generate_slurm_command_eq build_commands_eq truthy_def cleanup_date_of_def)
next
  fix base t c
  assume "priority_name p = Some base \<and> base \<noteq> [] \<and> status_updated_at p = Some t
           \<and> add_days t (duration_days p) = Some c"
  then show "generate_slurm_command gnow p = Some (py_join nl (commands_of gnow p base (Some c)))"
    by (simp add: generate_slurm_command_eq build_commands_eq truthy_def cleanup_date_of_def)
qed

theorem generate_slurm_command_fails_iff_witness:
  "add_days 63839783107000123 10 = Some 63840647107000123
   \<and> generate_slurm_command 63839783107000123 example_accepted
       = Some (py_join nl (commands_of 63839783107000123 example_accepted ''teamA-burst''
                 (Some 63840647107000123)))
   \<and> generate_slurm_command 63839783107000123 example_unstamped
       = Some (py_join nl (commands_of 63839783107000123 example_unstamped ''teamA-burst'' None))
   \<and> generate_slurm_command 63839783107000123 (example_accepted\<lparr>priority_name := Some []\<rparr>) = None"
proof -
  have a: "add_days 63839783107000123 10 = Some 63840647107000123"
    by (simp add: add_days_def us_per_day_def datetime_max_def)
  have n: "priority_name example_accepted = Some ''teamA-burst''"
    and d: "duration_days example_accepted = 10"
    and t: "status_updated_at example_accepted = Some 63839783107000123"
    and n': "priority_name example_unstamped = Some ''teamA-burst''"
    and t': "status_updated_at example_unstamped = None"
    by (simp_all add: example_accepted_def example_unstamped_def)
  show ?thesis
    using generate_slurm_command_fails_iff [of 63839783107000123 example_accepted]
          generate_slurm_command_fails_iff [of 63839783107000123 example_unstamped]
          generate_slurm_command_fails_iff
            [of 63839783107000123 "example_accepted\<lparr>priority_name := Some []\<rparr>"]
          a n d t n' t'
    by simp
qed

section \<open>User creation\<close>

text \<open>
  C9. The claim reads: without a \<open>preferred_username\<close>, the new user's username
  is the part of the email before the \<open>@\<close>. The source assigns
  \<open>email.split('@')\<close>, the list of the pieces, not its first element.
\<close>

theorem new_user_username_example:
  "new_user_username example_user_info = PyList [''alice'', ''example.org'']
   \<and> new_user_username example_user_info \<noteq> PyStr ''alice''"
  by code_simp

section \<open>Archival and listings\<close>

lemma should_include_archived:
  "should_include now p = Some inc \<Longrightarrow> inc = (\<not> archived now p)"
  by (auto simp: should_include_def archived_def not_less us_per_day_def
           split: option.splits if_splits dest!: add_days_Some)

lemma is_archived_archived:
  assumes "should_include now p \<noteq> None"
  shows "is_archived now p = Some (archived now p)"
proof (cases "status_updated_at p")
  case None
  then show ?thesis
    by (simp add: is_archived_def valid_until_def archived_def)
next
  case (Some t)
  show ?thesis
  proof (cases "status p = ''accepted''")
    case False
    with Some show ?thesis
      by (simp add: is_archived_def valid_until_def archived_def)
  next
    case True
    with Some assms obtain e c where e: "add_days t (duration_days p) = Some e"
      and c: "add_days e 7 = Some c"
      by (auto simp: should_include_def split: option.splits)
    from add_days_Some [OF e] add_days_Some [OF c]
    have "c = t + duration_days p * us_per_day + 7 * us_per_day"
      by (simp add: us_per_day_def)
    with True Some e c show ?thesis
      by (simp add: is_archived_def valid_until_def archived_def)
  qed
qed

lemma filter_archived_filter:
  "list_all (\<lambda>p. should_include now p \<noteq> None) ps \<Longrightarrow>
   filter_archived now ps = Some (filter (\<lambda>p. \<not> archived now p) ps)"
proof (induction ps)
  case Nil
  show ?case by simp
next
  case (Cons p ps)
  from Cons.prems obtain inc where inc: "should_include now p = Some inc"
    by auto
  from Cons have "filter_archived now ps = Some (filter (\<lambda>p. \<not> archived now p) ps)"
    by simp
  with inc should_include_archived [OF inc] show ?case
    by simp
qed

lemma sorted_wrt_insort_created:
  "sorted_wrt (\<lambda>a b. created_at a \<ge> created_at b) ps \<Longrightarrow>
   sorted_wrt (\<lambda>a b. created_at a \<ge> created_at b) (insort_key (\<lambda>x. - created_at x) p ps)"
  by (induction ps) (auto simp: set_insort_key)

lemma sort_created_desc_sorted:
  "sorted_wrt (\<lambda>a b. created_at a \<ge> created_at b) (sort_created_desc ps)"
  unfolding sort_created_desc_def
  by (induction ps) (simp_all add: sorted_wrt_insort_created)

lemma sort_created_desc_mset: "mset (sort_created_desc ps) = mset ps"
  by (simp add: sort_created_desc_def)

text \<open>
  C3. Where no date addition overflows, a request is archived, by the filter
  loop of both listing handlers and by the property \<open>is_archived\<close>, iff its
  status is accepted and \<open>status_updated_at + duration_days + 7 days < now\<close>; the
  default listing is the rows that are not archived, the listing with
  \<open>show_archived\<close> is all the rows (of the owner, for \<open>my_priorities\<close>), and every
  listing is a permutation of its rows in descending order of \<open>created_at\<close>. In
  particular a request accepted at \<open>t\<close> for 7 days is in every listing with
  \<open>show_archived\<close>, and it is in the default listing exactly while
  \<open>now \<le> t + 14 days\<close>: the comparison with the cutoff is strict, as in the
  definition of archived, so the request leaves the default listing once
  \<open>t + 14 days\<close> has passed.
\<close>

theorem listing_excludes_archived:
  assumes "list_all (\<lambda>p. should_include now p \<noteq> None) store"
  shows "admin_panel False now store
           = Inr (sort_created_desc (filter (\<lambda>p. \<not> archived now p) store))
     \<and> admin_panel True now store = Inr (sort_created_desc store)
     \<and> my_priorities False now g_user store
           = Inr (sort_created_desc (filter (\<lambda>p. \<not> archived now p)
                    (filter (\<lambda>q. user_id q = user_ident g_user) store)))
     \<and> my_priorities True now g_user store
           = Inr (sort_created_desc (filter (\<lambda>q. user_id q = user_ident g_user) store))
     \<and> (\<forall>ps. mset (sort_created_desc ps) = mset ps
             \<and> sorted_wrt (\<lambda>a b. created_at a \<ge> created_at b) (sort_created_desc ps))
     \<and> (\<forall>p \<in> set store. is_archived now p = Some (archived now p))
     \<and> (\<forall>p t. p \<in> set store \<and> status p = ''accepted'' \<and> status_updated_at p = Some t
               \<and> duration_days p = 7 \<longrightarrow>
           (\<forall>shown. admin_panel True now store = Inr shown \<longrightarrow> p \<in> set shown)
           \<and> (\<forall>shown. admin_panel False now store = Inr shown \<longrightarrow>
                 (p \<in> set shown \<longleftrightarrow> now \<le> t + 14 * us_per_day)))"
proof -
  let ?mine = "filter (\<lambda>q. user_id q = user_ident g_user) store"
  from assms have mine: "list_all (\<lambda>p. should_include now p \<noteq> None) ?mine"
    by (simp add: list_all_iff)
  have 1: "admin_panel False now store
           = Inr (sort_created_desc (filter (\<lambda>p. \<not> archived now p) store))"
    by (simp add: admin_panel_def listing_def filter_archived_filter [OF assms])
  have 2: "admin_panel True now store = Inr (sort_created_desc store)"
    by (simp add: admin_panel_def listing_def)
  have 3: "my_priorities False now g_user store
           = Inr (sort_created_desc (filter (\<lambda>p. \<not> archived now p) ?mine))"
    by (simp add: my_priorities_def listing_def filter_archived_filter [OF mine])
  have 4: "my_priorities True now g_user store = Inr (sort_created_desc ?mine)"
    by (simp add: my_priorities_def listing_def)
  have 5: "\<forall>ps. mset (sort_created_desc ps) = mset ps
             \<and> sorted_wrt (\<lambda>a b. created_at a \<ge> created_at b) (sort_created_desc ps)"
    by (simp add: sort_created_desc_mset sort_created_desc_sorted)
  have 6: "\<forall>p \<in> set store. is_archived now p = Some (archived now p)"
    using assms by (auto simp: list_all_iff intro: is_archived_archived)
  have 7: "(\<forall>shown. admin_panel True now store = Inr shown \<longrightarrow> p \<in> set shown)
           \<and> (\<forall>shown. admin_panel False now store = Inr shown \<longrightarrow>
                 (p \<in> set shown \<longleftrightarrow> now \<le> t + 14 * us_per_day))"
    if "p \<in> set store \<and> status p = ''accepted'' \<and> status_updated_at p = Some t
               \<and> duration_days p = 7" for p t
  proof -
    from that have "archived now p \<longleftrightarrow> t + 14 * us_per_day < now"
      by (auto simp: archived_def us_per_day_def)
    with that show ?thesis
      by (auto simp: 1 2 sort_created_desc_def)
  qed
  show ?thesis
    using 1 2 3 4 5 6 7 by blast
qed

theorem listing_excludes_archived_witness:
  "list_all (\<lambda>p. should_include (63839783107000123 + 14 * 86400000000 + 1) p \<noteq> None)
      [example_week, example_pending]
   \<and> status example_week = ''accepted''
   \<and> status_updated_at example_week = Some 63839783107000123
   \<and> duration_days example_week = 7
   \<and> admin_panel False (63839783107000123 + 14 * 86400000000 + 1) [example_week, example_pending]
       = Inr [example_pending]
   \<and> admin_panel True (63839783107000123 + 14 * 86400000000 + 1) [example_week, example_pending]
       = Inr [example_pending, example_week]
   \<and> is_archived (63839783107000123 + 14 * 86400000000 + 1) example_week = Some True"
proof -
  let ?now = "63839783107000123 + 14 * 86400000000 + 1 :: int"
  have h: "list_all (\<lambda>p. should_include ?now p \<noteq> None) [example_week, example_pending]"
    by code_simp
  have a: "archived ?now example_week" "\<not> archived ?now example_pending"
    by code_simp+
  have s: "sort_created_desc [example_pending] = [example_pending]"
    "sort_created_desc [example_week, example_pending] = [example_pending, example_week]"
    by code_simp+
  have f: "status example_week = ''accepted''"
    "status_updated_at example_week = Some 63839783107000123"
    "duration_days example_week = 7"
    by (simp_all add: example_week_def example_accepted_def)
  from listing_excludes_archived [OF h] a s f h show ?thesis
    by simp
qed

section \<open>Submission\<close>

lemma last_dropWhile: "dropWhile P xs \<noteq> [] \<Longrightarrow> last (dropWhile P xs) = last xs"
proof -
  assume "dropWhile P xs \<noteq> []"
  then have "last (takeWhile P xs @ dropWhile P xs) = last (dropWhile P xs)"
    by (rule last_appendR)
  then show ?thesis by simp
qed

lemma py_strip_ends:
  assumes "py_strip s \<noteq> []"
  shows "\<not> py_isspace (hd (py_strip s))" and "\<not> py_isspace (last (py_strip s))"
proof -
  let ?t = "dropWhile py_isspace s"
  let ?r = "dropWhile py_isspace (rev ?t)"
  from assms have r: "?r \<noteq> []"
    by (simp add: py_strip_def)
  then have t: "?t \<noteq> []"
    by (metis dropWhile.simps(1) rev.simps(1))
  have "hd (py_strip s) = last ?r"
    using r by (simp add: py_strip_def hd_rev)
  also have "\<dots> = last (rev ?t)"
    using r by (rule last_dropWhile)
  also have "\<dots> = hd ?t"
    using t by (simp add: last_rev)
  finally show "\<not> py_isspace (hd (py_strip s))"
    using hd_dropWhile [OF t] by simp
  have "last (py_strip s) = hd ?r"
    using r by (simp add: py_strip_def last_rev)
  then show "\<not> py_isspace (last (py_strip s))"
    using hd_dropWhile [OF r] by simp
qed

lemma py_strip_idem: "py_strip (py_strip s) = py_strip s"
proof (cases "py_strip s = []")
  case True
  then show ?thesis by (simp add: py_strip_Nil)
next
  case False
  let ?u = "py_strip s"
  from py_strip_ends [OF False] False
  have "dropWhile py_isspace ?u = ?u" and "dropWhile py_isspace (rev ?u) = rev ?u"
    by (simp_all add: dropWhile_eq_self_iff hd_rev)
  then show ?thesis
    by (simp add: py_strip_def [of ?u])
qed

lemma py_isspace_newline: "py_isspace (CHR 0x0A)"
  by (simp add: py_isspace_def)

lemma chop_final_newline_strip: "chop_final_newline (py_strip u) = py_strip u"
  using py_strip_ends(2) [of u] py_isspace_newline
  by (auto simp: chop_final_newline_def)

lemma validate_bugzilla_ticket_stripped:
  "validate_bugzilla_ticket (py_strip s) \<longleftrightarrow> rule_ticket (py_strip s)"
  by (auto simp: validate_bugzilla_ticket_def str_isdigit_def rule_ticket_def py_strip_idem
                 Let_def Suc_le_eq)

lemma match_username_pattern_stripped:
  "match_username_pattern (py_strip u) =
     (case py_strip u of [] \<Rightarrow> False | c # cs \<Rightarrow> ascii_alpha c \<and> list_all username_char cs)"
  by (simp add: match_username_pattern_def chop_final_newline_strip)

lemma username_entries_stripped:
  "e \<in> set (strip_nonempty_lines s) \<Longrightarrow>
   (\<not> match_username_pattern e \<or> length e < 2 \<or> length e > 50) = (\<not> rule_username_entry e)"
  by (auto simp: strip_nonempty_lines_def rule_username_entry_def match_username_pattern_stripped)

lemma validate_username_stripped:
  "validate_username (py_strip s) \<longleftrightarrow> rule_username_block (py_strip s)"
proof (cases "py_strip s = []")
  case True
  then show ?thesis
    by (simp add: validate_username_def rule_username_block_def strip_nonempty_lines_def
                  py_strip_Nil)
next
  case False
  have "list_ex (\<lambda>u. \<not> match_username_pattern u \<or> length u < 2 \<or> length u > 50)
          (strip_nonempty_lines (py_strip s))
        = (\<not> list_all rule_username_entry (strip_nonempty_lines (py_strip s)))"
    using username_entries_stripped [of _ "py_strip s"]
    by (auto simp: list_ex_iff list_all_iff)
  with False show ?thesis
    by (auto simp: validate_username_def rule_username_block_def py_strip_idem Let_def)
qed

text \<open>
  C8. The claim reads: a submission that violates several validation rules fails
  with a \<open>ValidationError\<close> that lists every violated rule. The specification
  puts the requester username under the username rule; \<open>submit_priority\<close> only
  requires it to be present, so a username that is not a valid username is not
  listed beside the other violations.
\<close>

theorem submit_priority_username_counterexample:
  "\<not> validate_username (py_strip (form_username example_form_bad_username))
   \<and> form_duration_days example_form_bad_username = Some 20
   \<and> submit 63839000000000000 example_user example_form_bad_username [example_pending]
       = Inl (ValidationError [''Duration must be between 1 and 14 days (maximum 2 weeks)''])"
  by code_simp

text \<open>
  C8, as amended: for a form whose GPU count and duration are integers, when at
  least one of the rules that \<open>submit_priority\<close> checks is violated, the
  submission fails with a \<open>ValidationError\<close>, no request is created, and the
  error lists the message of each of these rules exactly when the rule is
  violated, so every violated one is listed and not only the first. The rules,
  on the trimmed fields: the ticket is 1 to 50 digits; the requester username is
  present; the additional usernames, if any, are a valid username block; the
  project is a valid username block; the GPU type is one of \<open>rtx3090\<close>, \<open>v100\<close>,
  \<open>h100\<close>; the GPU count is at least 1; the duration is from 1 to 14; the reason
  is present. When none is violated the form passes to the confirmation step.
\<close>

theorem submit_priority_lists_checked_rules:
  assumes "form_gpu_count f = Some g" and "form_duration_days f = Some d"
  shows "(\<not> rule_ticket (py_strip (form_bugzilla_ticket f))
          \<or> py_strip (form_username f) = []
          \<or> (py_strip (form_additional_usernames f) \<noteq> []
              \<and> \<not> rule_username_block (py_strip (form_additional_usernames f)))
          \<or> \<not> rule_username_block (py_strip (form_slurm_project f))
          \<or> form_gpu_type f \<notin> set [''rtx3090'', ''v100'', ''h100'']
          \<or> g < 1
          \<or> (d < 1 \<or> d > 14)
          \<or> py_strip (form_reason f) = []
          \<longrightarrow>
          (\<exists>errs. submit_priority f = Inl (ValidationError errs)
             \<and> submit now g_user f store = Inl (ValidationError errs)
             \<and> store_after store (submit now g_user f store) = store
             \<and> (\<not> rule_ticket (py_strip (form_bugzilla_ticket f))
                   \<longleftrightarrow> ''Invalid Bugzilla ticket format'' \<in> set errs)
             \<and> (py_strip (form_username f) = [] \<longleftrightarrow> ''Username is required'' \<in> set errs)
             \<and> (py_strip (form_additional_usernames f) \<noteq> []
                   \<and> \<not> rule_username_block (py_strip (form_additional_usernames f))
                   \<longleftrightarrow> ''Invalid additional usernames format'' \<in> set errs)
             \<and> (\<not> rule_username_block (py_strip (form_slurm_project f))
                   \<longleftrightarrow> ''Valid SLURM project is required'' \<in> set errs)
             \<and> (form_gpu_type f \<notin> set [''rtx3090'', ''v100'', ''h100'']
                   \<longleftrightarrow> ''Valid GPU type is required'' \<in> set errs)
             \<and> (g < 1 \<longleftrightarrow> ''GPU count must be at least 1'' \<in> set errs)
             \<and> (d < 1 \<or> d > 14
                   \<longleftrightarrow> ''Duration must be between 1 and 14 days (maximum 2 weeks)'' \<in> set errs)
             \<and> (py_strip (form_reason f) = [] \<longleftrightarrow> ''Reason is required'' \<in> set errs)))
     \<and> (rule_ticket (py_strip (form_bugzilla_ticket f))
          \<and> py_strip (form_username f) \<noteq> []
          \<and> (py_strip (form_additional_usernames f) = []
              \<or> rule_username_block (py_strip (form_additional_usernames f)))
          \<and> rule_username_block (py_strip (form_slurm_project f))
          \<and> form_gpu_type f \<in> set [''rtx3090'', ''v100'', ''h100'']
          \<and> 1 \<le> g \<and> 1 \<le> d \<and> d \<le> 14
          \<and> py_strip (form_reason f) \<noteq> []
          \<longrightarrow> (\<exists>data. submit_priority f = Inr data))"
proof -
  define dt where "dt =
     \<lparr>data_bugzilla_ticket = py_strip (form_bugzilla_ticket f),
      data_username = py_strip (form_username f),
      data_additional_usernames = py_strip (form_additional_usernames f),
      data_slurm_project = py_strip (form_slurm_project f),
      data_gpu_type = form_gpu_type f,
      data_gpu_count = g,
      data_duration_days = d,
      data_reason = py_strip (form_reason f)\<rparr>"
  have dt: "form_to_data f = Some dt"
    using assms by (simp add: form_to_data_def dt_def)
  have fields: "data_bugzilla_ticket dt = py_strip (form_bugzilla_ticket f)"
      "data_username dt = py_strip (form_username f)"
      "data_additional_usernames dt = py_strip (form_additional_usernames f)"
      "data_slurm_project dt = py_strip (form_slurm_project f)"
      "data_gpu_type dt = form_gpu_type f"
      "data_gpu_count dt = g" "data_duration_days dt = d"
      "data_reason dt = py_strip (form_reason f)"
    by (simp_all add: dt_def)
  have r1: "ticket_violated dt \<longleftrightarrow> \<not> rule_ticket (py_strip (form_bugzilla_ticket f))"
    by (simp add: ticket_violated_def fields validate_bugzilla_ticket_stripped)
  have r2: "username_violated dt \<longleftrightarrow> py_strip (form_username f) = []"
    by (simp add: username_violated_def fields)
  have r3: "additional_violated dt \<longleftrightarrow>
              py_strip (form_additional_usernames f) \<noteq> []
              \<and> \<not> rule_username_block (py_strip (form_additional_usernames f))"
    by (simp add: additional_violated_def fields validate_username_stripped)
  have r4: "project_violated dt \<longleftrightarrow> \<not> rule_username_block (py_strip (form_slurm_project f))"
    by (auto simp: project_violated_def fields validate_username_stripped
                   rule_username_block_def strip_nonempty_lines_Nil)
  have r5: "gpu_type_violated dt \<longleftrightarrow> form_gpu_type f \<notin> set [''rtx3090'', ''v100'', ''h100'']"
    by (auto simp: gpu_type_violated_def fields)
  have r6: "gpu_count_violated dt \<longleftrightarrow> g < 1"
    by (auto simp: gpu_count_violated_def fields)
  have r7: "duration_violated dt \<longleftrightarrow> d < 1 \<or> d > 14"
    by (auto simp: duration_violated_def fields)
  have r8: "reason_violated dt \<longleftrightarrow> py_strip (form_reason f) = []"
    by (simp add: reason_violated_def fields)
  let ?errs = "submit_errors dt"
  have e0: "?errs \<noteq> [] \<longleftrightarrow>
            ticket_violated dt \<or> username_violated dt \<or> additional_violated dt
            \<or> project_violated dt \<or> gpu_type_violated dt \<or> gpu_count_violated dt
            \<or> duration_violated dt \<or> reason_violated dt"
    by (simp add: submit_errors_def)
  have e1: "ticket_violated dt \<longleftrightarrow> ''Invalid Bugzilla ticket format'' \<in> set ?errs"
    by (simp add: submit_errors_def)
  have e2: "username_violated dt \<longleftrightarrow> ''Username is required'' \<in> set ?errs"
    by (simp add: submit_errors_def)
  have e3: "additional_violated dt \<longleftrightarrow> ''Invalid additional usernames format'' \<in> set ?errs"
    by (simp add: submit_errors_def)
  have e4: "project_violated dt \<longleftrightarrow> ''Valid SLURM project is required'' \<in> set ?errs"
    by (simp add: submit_errors_def)
  have e5: "gpu_type_violated dt \<longleftrightarrow> ''Valid GPU type is required'' \<in> set ?errs"
    by (simp add: submit_errors_def)
  have e6: "gpu_count_violated dt \<longleftrightarrow> ''GPU count must be at least 1'' \<in> set ?errs"
    by (simp add: submit_errors_def)
  have e7: "duration_violated dt \<longleftrightarrow>
            ''Duration must be between 1 and 14 days (maximum 2 weeks)'' \<in> set ?errs"
    by (simp add: submit_errors_def)
  have e8: "reason_violated dt \<longleftrightarrow> ''Reason is required'' \<in> set ?errs"
    by (simp add: submit_errors_def)
  have fail: "submit_priority f = Inl (ValidationError ?errs)
             \<and> submit now g_user f store = Inl (ValidationError ?errs)
             \<and> store_after store (submit now g_user f store) = store"
    if "?errs \<noteq> []"
    using that dt by (simp add: submit_def submit_priority_def store_after_def)
  have pass: "submit_priority f = Inr dt" if "?errs = []"
    using that dt by (simp add: submit_priority_def)
  show ?thesis
  proof (intro conjI impI)
    assume "\<not> rule_ticket (py_strip (form_bugzilla_ticket f))
          \<or> py_strip (form_username f) = []
          \<or> (py_strip (form_additional_usernames f) \<noteq> []
              \<and> \<not> rule_username_block (py_strip (form_additional_usernames f)))
          \<or> \<not> rule_username_block (py_strip (form_slurm_project f))
          \<or> form_gpu_type f \<notin> set [''rtx3090'', ''v100'', ''h100'']
          \<or> g < 1
          \<or> (d < 1 \<or> d > 14)
          \<or> py_strip (form_reason f) = []"
    then have "?errs \<noteq> []"
      unfolding e0 r1 r2 r3 r4 r5 r6 r7 r8 by blast
    from fail [OF this] show "\<exists>errs. submit_priority f = Inl (ValidationError errs)
             \<and> submit now g_user f store = Inl (ValidationError errs)
             \<and> store_after store (submit now g_user f store) = store
             \<and> (\<not> rule_ticket (py_strip (form_bugzilla_ticket f))
                   \<longleftrightarrow> ''Invalid Bugzilla ticket format'' \<in> set errs)
             \<and> (py_strip (form_username f) = [] \<longleftrightarrow> ''Username is required'' \<in> set errs)
             \<and> (py_strip (form_additional_usernames f) \<noteq> []
                   \<and> \<not> rule_username_block (py_strip (form_additional_usernames f))
                   \<longleftrightarrow> ''Invalid additional usernames format'' \<in> set errs)
             \<and> (\<not> rule_username_block (py_strip (form_slurm_project f))
                   \<longleftrightarrow> ''Valid SLURM project is required'' \<in> set errs)
             \<and> (form_gpu_type f \<notin> set [''rtx3090'', ''v100'', ''h100'']
                   \<longleftrightarrow> ''Valid GPU type is required'' \<in> set errs)
             \<and> (g < 1 \<longleftrightarrow> ''GPU count must be at least 1'' \<in> set errs)
             \<and> (d < 1 \<or> d > 14
                   \<longleftrightarrow> ''Duration must be between 1 and 14 days (maximum 2 weeks)'' \<in> set errs)
             \<and> (py_strip (form_reason f) = [] \<longleftrightarrow> ''Reason is required'' \<in> set errs)"
      using e1 e2 e3 e4 e5 e6 e7 e8
      unfolding r1 r2 r3 r4 r5 r6 r7 r8
      by (intro exI [of _ ?errs]) blast
  next
    assume "rule_ticket (py_strip (form_bugzilla_ticket f))
          \<and> py_strip (form_username f) \<noteq> []
          \<and> (py_strip (form_additional_usernames f) = []
              \<or> rule_username_block (py_strip (form_additional_usernames f)))
          \<and> rule_username_block (py_strip (form_slurm_project f))
          \<and> form_gpu_type f \<in> set [''rtx3090'', ''v100'', ''h100'']
          \<and> 1 \<le> g \<and> 1 \<le> d \<and> d \<le> 14
          \<and> py_strip (form_reason f) \<noteq> []"
    then have "\<not> (?errs \<noteq> [])"
      unfolding e0 r1 r2 r3 r4 r5 r6 r7 r8 by auto
    then have "?errs = []" by simp
    from pass [OF this] show "\<exists>data. submit_priority f = Inr data"
      by blast
  qed
qed

theorem submit_priority_lists_checked_rules_witness:
  "form_gpu_count example_form = Some 0
   \<and> form_duration_days example_form = Some 20
   \<and> rule_ticket (py_strip (form_bugzilla_ticket example_form))
   \<and> submit 63839000000000000 example_user example_form [example_pending]
       = Inl (ValidationError [''GPU count must be at least 1'',
                ''Duration must be between 1 and 14 days (maximum 2 weeks)''])
   \<and> store_after [example_pending]
        (submit 63839000000000000 example_user example_form [example_pending]) = [example_pending]
   \<and> (\<exists>errs. submit_priority example_form = Inl (ValidationError errs)
         \<and> ''GPU count must be at least 1'' \<in> set errs
         \<and> ''Duration must be between 1 and 14 days (maximum 2 weeks)'' \<in> set errs
         \<and> ''Invalid Bugzilla ticket format'' \<notin> set errs)"
proof -
  have g: "form_gpu_count example_form = Some 0"
    and d: "form_duration_days example_form = Some 20"
    by (simp_all add: example_form_def)
  have t: "rule_ticket (py_strip (form_bugzilla_ticket example_form))"
    by code_simp
  have s: "submit 63839000000000000 example_user example_form [example_pending]
       = Inl (ValidationError [''GPU count must be at least 1'',
                ''Duration must be between 1 and 14 days (maximum 2 weeks)''])"
    by code_simp
  from submit_priority_lists_checked_rules
         [OF g d, of 63839000000000000 example_user "[example_pending]"] t
  have "\<exists>errs. submit_priority example_form = Inl (ValidationError errs)
         \<and> ''GPU count must be at least 1'' \<in> set errs
         \<and> ''Duration must be between 1 and 14 days (maximum 2 weeks)'' \<in> set errs
         \<and> ''Invalid Bugzilla ticket format'' \<notin> set errs"
    by auto
  with g d t s show ?thesis
    by (simp add: store_after_def)
qed

section \<open>Administrator actions on a request\<close>

lemma get_row_Some: "get_row i store = Some p \<Longrightarrow> p \<in> set store \<and> priority_ident p = i"
  by (auto simp: get_row_def find_Some_iff)

lemma append_admin_message_eq:
  "append_admin_message m p =
     p\<lparr>admin_message :=
         Some ((if truthy (admin_message p) then the (admin_message p) @ nl @ nl else []) @ m)\<rparr>"
  by (simp add: append_admin_message_def)

lemma generate_slurm_command_Some:
  "truthy (priority_name p) \<Longrightarrow> cleanup_date_of p = Some c \<Longrightarrow>
   generate_slurm_command g p = Some (py_join nl (commands_of g p (the (priority_name p)) c))"
  by (simp add: generate_slurm_command_eq build_commands_eq)

lemma db_commit_cases:
  "db_commit c p q = q\<lparr>updated_at := (if q = p then updated_at p else c)\<rparr>"
  by (simp add: db_commit_def)

text \<open>
  C10. The claim reads: a status update to \<open>pending\<close> stamps \<open>status_updated_at\<close>
  and \<open>status_updated_by\<close>, may append a message, and leaves every other field
  unchanged. The column \<open>updated_at\<close> is declared with \<open>onupdate\<close>, so the commit
  of the update writes the commit time into it.
\<close>

theorem update_priority_status_pending_counterexample:
  "map updated_at [example_accepted] = [63839000000000000]
   \<and> map updated_at (store_after [example_accepted]
        (update_priority_status example_clock ''root'' (Some 1) (Some ''pending'') [] []
           [example_accepted])) = [63839876400000900]"
  by code_simp

text \<open>
  C10, as amended: \<open>pending\<close> is accepted as a target status; for every existing
  request, when the priority-name field of the form is blank or valid, the
  update sets \<open>status\<close> to \<open>pending\<close>, stamps \<open>status_updated_at\<close> and
  \<open>status_updated_by\<close>, appends the message if one is supplied, lets the store
  refresh \<open>updated_at\<close>, and leaves every other field, in particular
  \<open>priority_name\<close> and \<open>slurm_command\<close>, unchanged.
\<close>

theorem update_priority_status_pending_frame:
  assumes "get_row i store = Some p"
    and "py_strip pname_raw = [] \<or> validate_priority_name (py_strip pname_raw)"
  shows "\<exists>u. update_priority_status clk admin (Some i) (Some ''pending'') msg_raw pname_raw store
           = Inr (put_row
               (p\<lparr>status := ''pending'',
                   status_updated_at := Some (utcnow_stamp clk),
                   status_updated_by := Some admin,
                   admin_message :=
                     (if py_strip msg_raw = [] then admin_message p
                      else Some ((if truthy (admin_message p)
                                  then the (admin_message p) @ nl @ nl else [])
                                 @ ''['' @ strftime_Ymd_HM (zurich_now clk) @ ''] '' @ admin
                                 @ '': '' @ py_strip msg_raw)),
                   updated_at := u\<rparr>) store)
         \<and> (u = updated_at p \<or> u = utcnow_commit clk)"
proof -
  let ?q = "apply_status_update clk admin ''pending'' (py_strip msg_raw) (py_strip pname_raw) p"
  have q: "?q = p\<lparr>status := ''pending'',
                   status_updated_at := Some (utcnow_stamp clk),
                   status_updated_by := Some admin,
                   admin_message :=
                     (if py_strip msg_raw = [] then admin_message p
                      else Some ((if truthy (admin_message p)
                                  then the (admin_message p) @ nl @ nl else [])
                                 @ ''['' @ strftime_Ymd_HM (zurich_now clk) @ ''] '' @ admin
                                 @ '': '' @ py_strip msg_raw))\<rparr>"
    by (simp add: apply_status_update_def append_admin_message_eq format_message_def Let_def)
  have r: "update_priority_status clk admin (Some i) (Some ''pending'') msg_raw pname_raw store
           = Inr (put_row (db_commit (utcnow_commit clk) p ?q) store)"
    using assms by (auto simp: update_priority_status_def Let_def)
  show ?thesis
    unfolding r db_commit_cases q
    by (rule exI [of _ "if ?q = p then updated_at p else utcnow_commit clk"])
       (simp add: q)
qed

theorem update_priority_status_pending_frame_witness:
  "get_row 1 [example_accepted] = Some example_accepted
   \<and> update_priority_status example_clock ''root'' (Some 1) (Some ''pending'') ''on hold'' []
        [example_accepted]
       = Inr [example_accepted\<lparr>status := ''pending'',
                status_updated_at := Some 63839876400000000,
                status_updated_by := Some ''root'',
                admin_message := Some ''[2024-01-03 12:00] root: on hold'',
                updated_at := 63839876400000900\<rparr>]"
proof -
  have g: "get_row 1 [example_accepted] = Some example_accepted"
    by code_simp
  have v: "py_strip [] = [] \<or> validate_priority_name (py_strip [])"
    by (simp add: py_strip_Nil)
  have c: "update_priority_status example_clock ''root'' (Some 1) (Some ''pending'') ''on hold'' []
        [example_accepted]
       = Inr [example_accepted\<lparr>status := ''pending'',
                status_updated_at := Some 63839876400000000,
                status_updated_by := Some ''root'',
                admin_message := Some ''[2024-01-03 12:00] root: on hold'',
                updated_at := 63839876400000900\<rparr>]"
    by code_simp
  from update_priority_status_pending_frame [OF g v, of example_clock "''root''" "''on hold''"] g c
  show ?thesis by simp
qed

lemma apply_users_update_eq:
  "apply_users_update clk additional p =
     (let p1 = p\<lparr>additional_usernames := (if additional \<noteq> [] then Some additional else None)\<rparr>
      in if status p = ''accepted'' \<and> truthy (priority_name p)
         then p1\<lparr>slurm_command := generate_slurm_command (utcnow_generate clk) p1\<rparr>
         else p1)"
  by (simp add: apply_users_update_def Let_def)

lemma all_users_of_update:
  "all_users_of (p\<lparr>additional_usernames := (if additional \<noteq> [] then Some additional else None)\<rparr>)
     = username (user p) # strip_nonempty_lines additional"
  by (simp add: all_users_of_def additional_usernames_list_def strip_nonempty_lines_Nil)

lemma cleanup_date_of_additional [simp]:
  "cleanup_date_of (p\<lparr>additional_usernames := a\<rparr>) = cleanup_date_of p"
  by (simp add: cleanup_date_of_def split: option.splits)

text \<open>
  C7. For an existing request and a new list that is empty or valid,
  \<open>update_priority_users\<close> writes a row with the same status and priority name.
  Where the status is not \<open>accepted\<close>, \<open>slurm_command\<close> is what it was, so a null
  one stays null. Where the status is \<open>accepted\<close> and the priority name is set
  (a non-empty string, which is what the handler tests and what an acceptance
  stores), \<open>slurm_command\<close> is the text generated anew: its lines after
  \<open># Assign QOS to users\<close> are one assignment command for the requester and then
  one for each line of the new list, trimmed, in order and with repetitions
  kept; the same users are in the header and in the \<open>squeue\<close> command.
\<close>

theorem update_priority_users_regenerates:
  assumes "get_row i store = Some p"
    and "py_strip raw = [] \<or> validate_username (py_strip raw)"
  shows "\<exists>p'. update_priority_users clk (Some i) raw store = Inr (put_row p' store)
      \<and> priority_ident p' = i
      \<and> status p' = status p
      \<and> priority_name p' = priority_name p
      \<and> (status p \<noteq> ''accepted'' \<longrightarrow> slurm_command p' = slurm_command p)
      \<and> (\<forall>base c. status p = ''accepted'' \<and> priority_name p = Some base \<and> base \<noteq> []
             \<and> cleanup_date_of p = Some c \<longrightarrow>
           (let qos = ''prio-'' @ base @ ''-'' @ py_str_int (duration_days p) @ ''d'';
                users = username (user p) # strip_nonempty_lines (py_strip raw)
            in slurm_command p' = Some (py_join nl
                 ([''# GPU Priority Commands for Ticket: '' @ bugzilla_ticket p,
                   ''# Generated on: '' @ strftime_Ymd_HMS (utcnow_generate clk),
                   ''# Base Priority Name: '' @ base,
                   ''# QOS Name: '' @ qos,
                   ''# Users: '' @ py_join '', '' users,
                   [],
                   ''# Create QOS with resource limits'',
                   qos_cmd p qos,
                   [],
                   ''# Assign QOS to users'']
                  @ map (\<lambda>u. ''sacctmgr modify user '' @ u @ '' set qos+='' @ qos
                               @ '' where account='' @ slurm_project p) users
                  @ cleanup_lines qos c
                  @ [[], ''# Verification commands'',
                     ''sacctmgr show qos '' @ qos,
                     ''squeue -u '' @ py_join '','' users]))))"
proof -
  let ?a = "py_strip raw"
  let ?p1 = "p\<lparr>additional_usernames := (if ?a \<noteq> [] then Some ?a else None)\<rparr>"
  let ?q = "apply_users_update clk ?a p"
  let ?p' = "db_commit (utcnow_commit clk) p ?q"
  from assms(1) have i: "priority_ident p = i"
    by (simp add: get_row_Some)
  have r: "update_priority_users clk (Some i) raw store = Inr (put_row ?p' store)"
    using assms by (auto simp: update_priority_users_def Let_def)
  have f: "priority_ident ?p' = i" "status ?p' = status p" "priority_name ?p' = priority_name p"
    by (simp_all add: db_commit_cases apply_users_update_eq Let_def i)
  have n: "slurm_command ?p' = slurm_command p" if "status p \<noteq> ''accepted''"
    using that by (simp add: db_commit_cases apply_users_update_eq Let_def)
  have g: "slurm_command ?p' = Some (py_join nl (commands_of (utcnow_generate clk) ?p1 base c))"
    if "status p = ''accepted'' \<and> priority_name p = Some base \<and> base \<noteq> []
             \<and> cleanup_date_of p = Some c" for base c
  proof -
    from that have t: "truthy (priority_name ?p1)" and d: "cleanup_date_of ?p1 = Some c"
      by (simp_all add: truthy_def)
    from that generate_slurm_command_Some [OF t d, of "utcnow_generate clk"]
    show ?thesis
      by (simp add: db_commit_cases apply_users_update_eq Let_def truthy_def)
  qed
  have e: "commands_of g ?p1 base c =
            (let qos = ''prio-'' @ base @ ''-'' @ py_str_int (duration_days p) @ ''d'';
                users = username (user p) # strip_nonempty_lines (py_strip raw)
            in [''# GPU Priority Commands for Ticket: '' @ bugzilla_ticket p,
                   ''# Generated on: '' @ strftime_Ymd_HMS g,
                   ''# Base Priority Name: '' @ base,
                   ''# QOS Name: '' @ qos,
                   ''# Users: '' @ py_join '', '' users,
                   [],
                   ''# Create QOS with resource limits'',
                   qos_cmd p qos,
                   [],
                   ''# Assign QOS to users'']
                  @ map (\<lambda>u. ''sacctmgr modify user '' @ u @ '' set qos+='' @ qos
                               @ '' where account='' @ slurm_project p) users
                  @ cleanup_lines qos c
                  @ [[], ''# Verification commands'',
                     ''sacctmgr show qos '' @ qos,
                     ''squeue -u '' @ py_join '','' users])" for g base c
    by (simp add: commands_of_def header_lines_def all_users_of_update qos_name_of_def
                  qos_cmd_def user_cmd_def Let_def)
  show ?thesis
    using r f n g e by (intro exI [of _ ?p']) (simp add: Let_def)
qed

theorem update_priority_users_regenerates_witness:
  "get_row 1 [example_accepted, example_pending] = Some example_accepted
   \<and> get_row 2 [example_accepted, example_pending] = Some example_pending
   \<and> validate_username (py_strip example_users_raw)
   \<and> status example_pending \<noteq> ''accepted'' \<and> slurm_command example_pending = None
   \<and> status example_accepted = ''accepted''
   \<and> priority_name example_accepted = Some ''teamA-burst''
   \<and> cleanup_date_of example_accepted = Some (Some 63840647107000123)
   \<and> (\<exists>p'. update_priority_users example_clock (Some 2) example_users_raw
               [example_accepted, example_pending]
             = Inr (put_row p' [example_accepted, example_pending])
           \<and> slurm_command p' = None)
   \<and> (\<exists>p'. update_priority_users example_clock (Some 1) example_users_raw
               [example_accepted, example_pending]
             = Inr (put_row p' [example_accepted, example_pending])
           \<and> slurm_command p' = Some (py_join nl
                 ([''# GPU Priority Commands for Ticket: 12345'',
                   ''# Generated on: 2024-01-03 11:00:00'',
                   ''# Base Priority Name: teamA-burst'',
                   ''# QOS Name: prio-teamA-burst-10d'',
                   ''# Users: alice, bob, carol, bob'',
                   [],
                   ''# Create QOS with resource limits'',
                   ''sacctmgr add qos prio-teamA-burst-10d GrpTRES=gres/gpu:h100=2 MaxWall=10-0 Priority=1000'',
                   [],
                   ''# Assign QOS to users'',
                   ''sacctmgr modify user alice set qos+=prio-teamA-burst-10d where account=proj'',
                   ''sacctmgr modify user bob set qos+=prio-teamA-burst-10d where account=proj'',
                   ''sacctmgr modify user carol set qos+=prio-teamA-burst-10d where account=proj'',
                   ''sacctmgr modify user bob set qos+=prio-teamA-burst-10d where account=proj'']
                  @ cleanup_lines ''prio-teamA-burst-10d'' (Some 63840647107000123)
                  @ [[], ''# Verification commands'',
                     ''sacctmgr show qos prio-teamA-burst-10d'',
                     ''squeue -u alice,bob,carol,bob''])))"
proof -
  let ?store = "[example_accepted, example_pending]"
  have g1: "get_row 1 ?store = Some example_accepted"
    and g2: "get_row 2 ?store = Some example_pending"
    by code_simp+
  have v: "py_strip example_users_raw = [] \<or> validate_username (py_strip example_users_raw)"
    and v': "validate_username (py_strip example_users_raw)"
    by code_simp+
  have a: "status example_pending \<noteq> ''accepted''" "slurm_command example_pending = None"
    "status example_accepted = ''accepted''"
    "priority_name example_accepted = Some ''teamA-burst''"
    "cleanup_date_of example_accepted = Some (Some 63840647107000123)"
    by code_simp+
  have e: "py_str_int (duration_days example_accepted) = ''10''"
    "strip_nonempty_lines (py_strip example_users_raw) = [''bob'', ''carol'', ''bob'']"
    "username (user example_accepted) = ''alice''"
    "bugzilla_ticket example_accepted = ''12345''"
    "slurm_project example_accepted = ''proj''"
    "strftime_Ymd_HMS (utcnow_generate example_clock) = ''2024-01-03 11:00:00''"
    "qos_cmd example_accepted ''prio-teamA-burst-10d''
       = ''sacctmgr add qos prio-teamA-burst-10d GrpTRES=gres/gpu:h100=2 MaxWall=10-0 Priority=1000''"
    by code_simp+
  from update_priority_users_regenerates [OF g2 v, of example_clock] a
  have 1: "\<exists>p'. update_priority_users example_clock (Some 2) example_users_raw ?store
             = Inr (put_row p' ?store) \<and> slurm_command p' = None"
    by auto
  from update_priority_users_regenerates [OF g1 v, of example_clock]
  obtain p' where p': "update_priority_users example_clock (Some 1) example_users_raw ?store
             = Inr (put_row p' ?store)"
    and all: "\<forall>base c. status example_accepted = ''accepted''
             \<and> priority_name example_accepted = Some base \<and> base \<noteq> []
             \<and> cleanup_date_of example_accepted = Some c \<longrightarrow>
           (let qos = ''prio-'' @ base @ ''-'' @ py_str_int (duration_days example_accepted) @ ''d'';
                users = username (user example_accepted)
                        # strip_nonempty_lines (py_strip example_users_raw)
            in slurm_command p' = Some (py_join nl
                 ([''# GPU Priority Commands for Ticket: '' @ bugzilla_ticket example_accepted,
                   ''# Generated on: '' @ strftime_Ymd_HMS (utcnow_generate example_clock),
                   ''# Base Priority Name: '' @ base,
                   ''# QOS Name: '' @ qos,
                   ''# Users: '' @ py_join '', '' users,
                   [],
                   ''# Create QOS with resource limits'',
                   qos_cmd example_accepted qos,
                   [],
                   ''# Assign QOS to users'']
                  @ map (\<lambda>u. ''sacctmgr modify user '' @ u @ '' set qos+='' @ qos
                               @ '' where account='' @ slurm_project example_accepted) users
                  @ cleanup_lines qos c
                  @ [[], ''# Verification commands'',
                     ''sacctmgr show qos '' @ qos,
                     ''squeue -u '' @ py_join '','' users])))"
    by blast
  from all [rule_format, of "''teamA-burst''" "Some 63840647107000123"] a e
  have 2: "slurm_command p' = Some (py_join nl
                 ([''# GPU Priority Commands for Ticket: 12345'',
                   ''# Generated on: 2024-01-03 11:00:00'',
                   ''# Base Priority Name: teamA-burst'',
                   ''# QOS Name: prio-teamA-burst-10d'',
                   ''# Users: alice, bob, carol, bob'',
                   [],
                   ''# Create QOS with resource limits'',
                   ''sacctmgr add qos prio-teamA-burst-10d GrpTRES=gres/gpu:h100=2 MaxWall=10-0 Priority=1000'',
                   [],
                   ''# Assign QOS to users'',
                   ''sacctmgr modify user alice set qos+=prio-teamA-burst-10d where account=proj'',
                   ''sacctmgr modify user bob set qos+=prio-teamA-burst-10d where account=proj'',
                   ''sacctmgr modify user carol set qos+=prio-teamA-burst-10d where account=proj'',
                   ''sacctmgr modify user bob set qos+=prio-teamA-burst-10d where account=proj'']
                  @ cleanup_lines ''prio-teamA-burst-10d'' (Some 63840647107000123)
                  @ [[], ''# Verification commands'',
                     ''sacctmgr show qos prio-teamA-burst-10d'',
                     ''squeue -u alice,bob,carol,bob'']))"
    by (simp add: Let_def)
  from p' 2 have 3: "\<exists>p'. update_priority_users example_clock (Some 1) example_users_raw ?store
             = Inr (put_row p' ?store)
           \<and> slurm_command p' = Some (py_join nl
                 ([''# GPU Priority Commands for Ticket: 12345'',
                   ''# Generated on: 2024-01-03 11:00:00'',
                   ''# Base Priority Name: teamA-burst'',
                   ''# QOS Name: prio-teamA-burst-10d'',
                   ''# Users: alice, bob, carol, bob'',
                   [],
                   ''# Create QOS with resource limits'',
                   ''sacctmgr add qos prio-teamA-burst-10d GrpTRES=gres/gpu:h100=2 MaxWall=10-0 Priority=1000'',
                   [],
                   ''# Assign QOS to users'',
                   ''sacctmgr modify user alice set qos+=prio-teamA-burst-10d where account=proj'',
                   ''sacctmgr modify user bob set qos+=prio-teamA-burst-10d where account=proj'',
                   ''sacctmgr modify user carol set qos+=prio-teamA-burst-10d where account=proj'',
                   ''sacctmgr modify user bob set qos+=prio-teamA-burst-10d where account=proj'']
                  @ cleanup_lines ''prio-teamA-burst-10d'' (Some 63840647107000123)
                  @ [[], ''# Verification commands'',
                     ''sacctmgr show qos prio-teamA-burst-10d'',
                     ''squeue -u alice,bob,carol,bob'']))"
    by blast
  show ?thesis
    using g1 g2 v' a 1 3 by blast
qed

section \<open>The invariant of the admin-set fields\<close>

lemma put_row_all: "list_all P store \<Longrightarrow> P p' \<Longrightarrow> list_all P (put_row p' store)"
  by (auto simp: put_row_def list_all_iff)

lemma fields_invariant_db_commit: "fields_invariant (db_commit c p q) = fields_invariant q"
  by (simp add: db_commit_cases fields_invariant_def)

lemma fields_invariant_new_priority: "fields_invariant (new_priority now i g d)"
  by (simp add: fields_invariant_def new_priority_def)

lemma generate_slurm_command_not_None:
  "truthy (priority_name p) \<Longrightarrow> cleanup_date_of p \<noteq> None \<Longrightarrow>
   generate_slurm_command g p \<noteq> None"
  by (auto simp: generate_slurm_command_eq build_commands_eq)

lemma apply_status_update_accepted:
  assumes "pname \<noteq> []" and "add_days (utcnow_stamp clk) (duration_days p) \<noteq> None"
  shows "fields_invariant (apply_status_update clk admin ''accepted'' msg pname p)"
proof -
  from assms(2) obtain c where c: "add_days (utcnow_stamp clk) (duration_days p) = Some c"
    by auto
  have gen: "\<exists>y. generate_slurm_command g q = Some y"
    if "priority_name q = Some pname" and "status_updated_at q = Some (utcnow_stamp clk)"
      and "duration_days q = duration_days p" for g q
    using that assms(1) c
    by (simp add: generate_slurm_command_eq build_commands_eq truthy_def cleanup_date_of_def)
  show ?thesis
    unfolding apply_status_update_def Let_def fields_invariant_def append_admin_message_eq
    by (simp add: gen)
qed

lemma apply_status_update_refused:
  "status (apply_status_update clk admin ''refused'' msg pname p) = ''refused''
   \<and> priority_name (apply_status_update clk admin ''refused'' msg pname p) = None
   \<and> slurm_command (apply_status_update clk admin ''refused'' msg pname p) = None"
  by (simp add: apply_status_update_def Let_def append_admin_message_eq)

lemma apply_users_update_invariant:
  assumes "fields_invariant p" and "cleanup_date_of p \<noteq> None"
  shows "fields_invariant (apply_users_update clk a p)"
proof (cases "status p = ''accepted'' \<and> truthy (priority_name p)")
  case True
  let ?p1 = "p\<lparr>additional_usernames := (if a \<noteq> [] then Some a else None)\<rparr>"
  from True assms(2) have "generate_slurm_command (utcnow_generate clk) ?p1 \<noteq> None"
    by (intro generate_slurm_command_not_None) simp_all
  with True assms(1) show ?thesis
    by (simp add: apply_users_update_eq Let_def fields_invariant_def)
next
  case False
  with assms(1) show ?thesis
    by (auto simp: apply_users_update_eq Let_def fields_invariant_def)
qed

lemma apply_add_message_invariant:
  "fields_invariant (apply_add_message clk admin m p) = fields_invariant p"
  by (simp add: apply_add_message_def append_admin_message_eq fields_invariant_def)

lemma apply_status_update_name_nonempty:
  "priority_name p \<noteq> Some [] \<Longrightarrow> (new_status = ''accepted'' \<longrightarrow> pname \<noteq> []) \<Longrightarrow>
   priority_name (apply_status_update clk admin new_status msg pname p) \<noteq> Some []"
  by (simp add: apply_status_update_def Let_def append_admin_message_eq)

text \<open>
  C1. The claim reads: after every transition, \<open>priority_name\<close> and
  \<open>slurm_command\<close> are non-null iff the status is accepted. The branch of
  \<open>update_priority_status\<close> for \<open>refused\<close> clears both fields; for the target
  \<open>pending\<close>, which the handler accepts, no branch touches them. Evaluated on
  the request of \<open>example_after_accept\<close>, which is accepted and has both fields
  set: after the status update to \<open>pending\<close> the request is pending and still
  has its priority name and its commands, so the property is lost.
\<close>

theorem update_priority_status_pending_keeps_fields:
  "list_all fields_invariant example_after_accept
   \<and> map status example_after_accept = [''accepted'']
   \<and> update_priority_status example_clock ''root'' (Some 2) (Some ''pending'') [] []
         example_after_accept = Inr example_after_pending
   \<and> map status example_after_pending = [''pending'']
   \<and> map priority_name example_after_pending = [Some ''teamA-burst'']
   \<and> map slurm_command example_after_pending = map slurm_command example_after_accept
   \<and> map slurm_command example_after_pending \<noteq> [None]
   \<and> \<not> list_all fields_invariant example_after_pending"
  by code_simp

text \<open>
  The other transitions keep the property. In a store where every request has
  \<open>priority_name\<close> and \<open>slurm_command\<close> non-null iff its status is accepted, and
  where no cleanup date leaves the range of \<open>datetime\<close>, the same holds of every
  request after a submission, after a status update to \<open>accepted\<close> or \<open>refused\<close>,
  after an update of the additional usernames and after a message is appended;
  and a status update to \<open>refused\<close> leaves the request with both fields null.
\<close>

lemma fields_invariant_other_transitions:
  assumes "list_all fields_invariant store"
    and "list_all (cleanup_in_range clk) store"
  shows "list_all fields_invariant (store_after store (submit now g_user f store))
     \<and> (new_status \<noteq> Some ''pending'' \<longrightarrow>
          list_all fields_invariant
            (store_after store (update_priority_status clk admin pid new_status msg pname store)))
     \<and> list_all fields_invariant
          (store_after store (update_priority_users clk pid additional store))
     \<and> list_all fields_invariant (store_after store (add_message clk admin pid msg store))
     \<and> (\<forall>store'. update_priority_status clk admin pid (Some ''refused'') msg pname store
                    = Inr store' \<longrightarrow>
           (\<forall>p \<in> set store'. Some (priority_ident p) = pid \<longrightarrow>
              status p = ''refused'' \<and> priority_name p = None \<and> slurm_command p = None))"
proof -
  have rng: "add_days (utcnow_stamp clk) (duration_days p) \<noteq> None \<and> cleanup_date_of p \<noteq> None"
    and inv: "fields_invariant p"
    if "get_row i store = Some p" for i p
    using that assms get_row_Some [of i store p]
    by (auto simp: list_all_iff cleanup_in_range_def)
  have 1: "list_all fields_invariant (store_after store (submit now g_user f store))"
    using assms(1)
    by (auto simp: store_after_def submit_def confirm_priority_def fields_invariant_new_priority
             split: sum.splits)
  have 2: "list_all fields_invariant
            (store_after store (update_priority_status clk admin pid new_status msg pname store))"
    if ns: "new_status \<noteq> Some ''pending''"
  proof (cases "update_priority_status clk admin pid new_status msg pname store")
    case (Inl e)
    with assms(1) show ?thesis by (simp add: store_after_def)
  next
    case (Inr store')
    then obtain i p where pid: "pid = Some i" and p: "get_row i store = Some p"
      and st: "new_status = Some ''accepted'' \<and> py_strip pname \<noteq> [] \<or> new_status = Some ''refused''"
      and store': "store' = put_row (db_commit (utcnow_commit clk) p
             (apply_status_update clk admin (the new_status) (py_strip msg) (py_strip pname) p)) store"
      using ns
      by (auto simp: update_priority_status_def Let_def split: if_splits option.splits)
    from st have "fields_invariant
             (apply_status_update clk admin (the new_status) (py_strip msg) (py_strip pname) p)"
    proof
      assume "new_status = Some ''accepted'' \<and> py_strip pname \<noteq> []"
      with rng [OF p] show ?thesis
        by (simp add: apply_status_update_accepted)
    next
      assume "new_status = Some ''refused''"
      with apply_status_update_refused [of clk admin "py_strip msg" "py_strip pname" p]
      show ?thesis
        by (simp add: fields_invariant_def)
    qed
    with assms(1) Inr store' show ?thesis
      by (simp add: store_after_def put_row_all fields_invariant_db_commit)
  qed
  have 3: "list_all fields_invariant
          (store_after store (update_priority_users clk pid additional store))"
  proof (cases "update_priority_users clk pid additional store")
    case (Inl e)
    with assms(1) show ?thesis by (simp add: store_after_def)
  next
    case (Inr store')
    then obtain i p where p: "get_row i store = Some p"
      and store': "store' = put_row (db_commit (utcnow_commit clk) p
             (apply_users_update clk (py_strip additional) p)) store"
      by (auto simp: update_priority_users_def Let_def split: if_splits option.splits)
    from inv [OF p] rng [OF p]
    have "fields_invariant (apply_users_update clk (py_strip additional) p)"
      by (simp add: apply_users_update_invariant)
    with assms(1) Inr store' show ?thesis
      by (simp add: store_after_def put_row_all fields_invariant_db_commit)
  qed
  have 4: "list_all fields_invariant (store_after store (add_message clk admin pid msg store))"
  proof (cases "add_message clk admin pid msg store")
    case (Inl e)
    with assms(1) show ?thesis by (simp add: store_after_def)
  next
    case (Inr store')
    then obtain i p where p: "get_row i store = Some p"
      and store': "store' = put_row (db_commit (utcnow_commit clk) p
             (apply_add_message clk admin (py_strip msg) p)) store"
      by (auto simp: add_message_def Let_def split: if_splits option.splits)
    from inv [OF p] have "fields_invariant (apply_add_message clk admin (py_strip msg) p)"
      by (simp add: apply_add_message_invariant)
    with assms(1) Inr store' show ?thesis
      by (simp add: store_after_def put_row_all fields_invariant_db_commit)
  qed
  have 5: "status q = ''refused'' \<and> priority_name q = None \<and> slurm_command q = None"
    if r: "update_priority_status clk admin pid (Some ''refused'') msg pname store = Inr store'"
      and q: "q \<in> set store'" and qi: "Some (priority_ident q) = pid" for store' q
  proof -
    from r obtain i p where pid: "pid = Some i" and p: "get_row i store = Some p"
      and store': "store' = put_row (db_commit (utcnow_commit clk) p
             (apply_status_update clk admin ''refused'' (py_strip msg) (py_strip pname) p)) store"
      by (auto simp: update_priority_status_def Let_def split: if_splits option.splits)
    let ?p' = "db_commit (utcnow_commit clk) p
             (apply_status_update clk admin ''refused'' (py_strip msg) (py_strip pname) p)"
    have pi: "priority_ident ?p' = i"
      using get_row_Some [OF p]
      by (simp add: db_commit_cases apply_status_update_def Let_def append_admin_message_eq)
    from q qi pid pi store' have "q = ?p'"
      by (auto simp: put_row_def split: if_splits)
    with apply_status_update_refused [of clk admin "py_strip msg" "py_strip pname" p]
    show ?thesis
      by (simp add: db_commit_cases)
  qed
  show ?thesis
    using 1 2 3 4 5 by blast
qed

end
